theory Spec2Isabelle
  imports Main "HOL-Library.Word"
begin

unbundle bit_operations_syntax

section \<open>Bytes, errors and script numbers\<close>

type_synonym byte = "8 word"
type_synonym bytes = "byte list"

text \<open>
  The error codes of \<^verbatim>\<open>txscript\<close> that the engine, the asset opcodes and the signature
  verifiers raise. \<^verbatim>\<open>scriptError(code, description)\<close> builds a \<^verbatim>\<open>txscript.Error\<close>;
  a description built by \<^verbatim>\<open>fmt.Sprintf\<close> is kept as the format string with its arguments.
  \<open>PlainError\<close> is an error made by \<^verbatim>\<open>fmt.Errorf\<close> or returned by a library,
  \<open>GoPanic\<close> a run-time panic (index out of range, nil dereference).
\<close>

datatype ErrorCode =
    ErrInvalidIndex
  | ErrInvalidStackOperation
  | ErrNumberTooBig
  | ErrMinimalData
  | ErrReservedOpcode
  | ErrElementTooBig
  | ErrInvalidProgramCounter
  | ErrWitnessProgramEmpty
  | ErrDiscourageUpgradeableTaprootVersion
  | ErrStackOverflow
  | ErrScriptUnfinished
  | ErrCleanStack
  | ErrEmptyStack
  | ErrEvalFalse
  | ErrUnbalancedConditional
  | ErrWitnessHasNoAnnex
  | ErrTaprootMaxSigOps
  | ErrTaprootPubkeyIsEmpty
  | ErrDiscourageUpgradeablePubKeyType
  | ErrInvalidTaprootSigLen
  | ErrNotPushOnly
  | ErrScriptTooBig
  | ErrWitnessMalleated
  | ErrWitnessUnexpected

datatype fmt_arg = AInt int | AStr string | ABytes bytes

datatype error =
    ScriptError ErrorCode string "fmt_arg list"
  | PlainError string
  | GoPanic string

definition scriptError :: "ErrorCode \<Rightarrow> string \<Rightarrow> error" where
  "scriptError c desc = ScriptError c desc []"

definition scriptErrorf :: "ErrorCode \<Rightarrow> string \<Rightarrow> fmt_arg list \<Rightarrow> error" where
  "scriptErrorf c fmt args = ScriptError c fmt args"

fun errorCode :: "error \<Rightarrow> ErrorCode option" where
  "errorCode (ScriptError c _ _) = Some c"
| "errorCode (PlainError _) = None"
| "errorCode (GoPanic _) = None"

text \<open>
  Script numbers. \<^verbatim>\<open>scriptNum\<close> is an \<^verbatim>\<open>int64\<close>; every value read from the stack
  has at most four bytes and every value the asset opcodes push is a length or an unsigned
  16- or 32-bit field, so the numbers are modelled as mathematical integers.
\<close>

type_synonym scriptNum = int

text \<open>
  Modelled from the spec: the script-number codec (section 3.3: little-endian
  sign-magnitude, minimally encoded, at most four bytes when read as an operand); its
  source file is not part of the sources at hand. \<open>magnitude_bytes\<close> is the loop
  \<^verbatim>\<open>for n > 0 { result = append(result, byte(n & 0xff)); n >>= 8 }\<close>.
\<close>

function magnitude_bytes :: "nat \<Rightarrow> bytes" where
  "magnitude_bytes n = (if n = 0 then [] else word_of_nat (n mod 256) # magnitude_bytes (n div 256))"
  by pat_completeness auto
termination
  by (relation "measure id") auto

declare magnitude_bytes.simps [simp del]

definition scriptNum_Bytes :: "scriptNum \<Rightarrow> bytes" where
  "scriptNum_Bytes n =
     (if n = 0 then []
      else
        let isNegative = (n < 0);
            result = magnitude_bytes (nat \<bar>n\<bar>)
        in if last result AND 0x80 \<noteq> 0
           then result @ [if isNegative then 0x80 else 0x00]
           else if isNegative then butlast result @ [last result OR 0x80]
           else result)"

definition checkMinimalDataEncoding :: "bytes \<Rightarrow> error option" where
  "checkMinimalDataEncoding v =
     (if length v = 0 then None
      else if last v AND 0x7f = 0 \<and> (length v = 1 \<or> v ! (length v - 2) AND 0x80 = 0)
           then Some (scriptErrorf ErrMinimalData
                  ''numeric value encoded as %x is not minimally encoded'' [ABytes v])
           else None)"

fun le_value :: "bytes \<Rightarrow> int" where
  "le_value [] = 0"
| "le_value (b # bs) = uint b + 256 * le_value bs"

definition MakeScriptNum :: "bytes \<Rightarrow> bool \<Rightarrow> nat \<Rightarrow> error + scriptNum" where
  "MakeScriptNum v requireMinimal scriptNumLen =
     (if length v > scriptNumLen
      then Inl (scriptErrorf ErrNumberTooBig
             ''numeric value encoded as %x is %d bytes which exceeds the max allowed of %d''
             [ABytes v, AInt (int (length v)), AInt (int scriptNumLen)])
      else case (if requireMinimal then checkMinimalDataEncoding v else None) of
             Some err \<Rightarrow> Inl err
           | None \<Rightarrow>
               if length v = 0 then Inr 0
               else if last v AND 0x80 \<noteq> 0
                    then Inr (- (le_value v - 128 * 256 ^ (length v - 1)))
                    else Inr (le_value v))"

definition maxScriptNumLen :: nat where
  "maxScriptNumLen = 4"

section \<open>The stack\<close>

text \<open>
  Modelled from the spec: the stack (section 4.2: push bytes, pop bytes, push-int,
  pop-int with minimal encoding under the minimal-data flag, pop-bool, depth, dropN); its
  source file is not part of the sources at hand. The top of the stack is the last element
  of \<open>stk\<close>. Every operation returns the stack as it leaves it, also when it fails.
\<close>

record stack =
  stk :: "bytes list"
  verifyMinimalData :: bool

definition Depth :: "stack \<Rightarrow> int" where
  "Depth s = int (length (stk s))"

definition PushByteArray :: "stack \<Rightarrow> bytes \<Rightarrow> stack" where
  "PushByteArray s so = s\<lparr>stk := stk s @ [so]\<rparr>"

definition PushInt :: "stack \<Rightarrow> scriptNum \<Rightarrow> stack" where
  "PushInt s val = PushByteArray s (scriptNum_Bytes val)"

definition PopByteArray :: "stack \<Rightarrow> (error + bytes) \<times> stack" where
  "PopByteArray s =
     (if stk s = []
      then (Inl (scriptErrorf ErrInvalidStackOperation
                   ''index %d is invalid for stack size %d'' [AInt 0, AInt 0]), s)
      else (Inr (last (stk s)), s\<lparr>stk := butlast (stk s)\<rparr>))"

definition PopInt :: "stack \<Rightarrow> (error + scriptNum) \<times> stack" where
  "PopInt s =
     (case PopByteArray s of
        (Inl err, s') \<Rightarrow> (Inl err, s')
      | (Inr so, s') \<Rightarrow> (MakeScriptNum so (verifyMinimalData s') maxScriptNumLen, s'))"

fun asBool :: "bytes \<Rightarrow> bool" where
  "asBool [] = False"
| "asBool (b # bs) = (if b \<noteq> 0 then \<not> (bs = [] \<and> b = 0x80) else asBool bs)"

definition PopBool :: "stack \<Rightarrow> (error + bool) \<times> stack" where
  "PopBool s =
     (case PopByteArray s of
        (Inl err, s') \<Rightarrow> (Inl err, s')
      | (Inr so, s') \<Rightarrow> (Inr (asBool so), s'))"

definition DropN :: "stack \<Rightarrow> int \<Rightarrow> error option \<times> stack" where
  "DropN s n =
     (if n < 1
      then (Some (scriptErrorf ErrInvalidStackOperation
                    ''attempt to drop %d items from stack'' [AInt n]), s)
      else if nat n \<le> length (stk s)
           then (None, s\<lparr>stk := take (length (stk s) - nat n) (stk s)\<rparr>)
           else (Some (scriptErrorf ErrInvalidStackOperation
                         ''index %d is invalid for stack size %d'' [AInt 0, AInt 0]),
                 s\<lparr>stk := []\<rparr>))"

section \<open>The asset packet\<close>

text \<open>
  The packet types of the asset opcodes. A \<^verbatim>\<open>[32]byte\<close> array is a byte list of
  length 32; field names carry the name of their struct where Go reuses a name.
\<close>

definition AssetInputTypeLocal :: byte where "AssetInputTypeLocal = 0x01"
definition AssetInputTypeIntent :: byte where "AssetInputTypeIntent = 0x02"
definition AssetOutputTypeLocal :: byte where "AssetOutputTypeLocal = 0x01"
definition AssetOutputTypeIntent :: byte where "AssetOutputTypeIntent = 0x02"

record AssetID =
  Txid :: bytes
  Gidx :: "16 word"

record AssetInput =
  in_Type :: byte
  in_InputIndex :: "32 word"
  in_Txid :: bytes
  in_OutputIndex :: "32 word"
  in_Amount :: "64 word"

record AssetOutput =
  out_Type :: byte
  out_OutputIndex :: "32 word"
  out_Amount :: "64 word"

record AssetGroup =
  group_AssetID :: AssetID
  Control :: "AssetID option"
  MetadataHash :: bytes
  Inputs :: "AssetInput list"
  Outputs :: "AssetOutput list"

record AssetEntry =
  entry_AssetID :: AssetID
  entry_Amount :: "64 word"

record AssetPacket =
  Groups :: "AssetGroup list"
  InputAssets :: "32 word \<rightharpoonup> AssetEntry list"
  OutputAssets :: "32 word \<rightharpoonup> AssetEntry list"

section \<open>The engine\<close>

record wire_TxIn =
  SignatureScript :: bytes
  Witness :: "bytes list"

record wire_MsgTx =
  TxIn :: "wire_TxIn list"

definition sigOpsDelta :: "32 word" where
  "sigOpsDelta = 50"

definition blankCodeSepValue :: "32 word" where
  "blankCodeSepValue = 0xffffffff"

record taprootExecutionCtx =
  annex :: "bytes option"
  codeSepPos :: "32 word"
  tapLeafHash :: bytes
  sigOpsBudget :: "32 word"
  mustSucceed :: bool

text \<open>
  \<open>sigOpsBudget\<close> is an \<^verbatim>\<open>int32\<close>: a 32-bit word read with \<open>sint\<close>. The budget is
  decreased before it is tested, and stays decreased when the test fails.
\<close>

definition tallysigOp :: "taprootExecutionCtx \<Rightarrow> error option \<times> taprootExecutionCtx" where
  "tallysigOp t =
     (let t' = t\<lparr>sigOpsBudget := sigOpsBudget t - sigOpsDelta\<rparr>
      in if sint (sigOpsBudget t') < 0
         then (Some (scriptError ErrTaprootMaxSigOps ''''), t')
         else (None, t'))"

definition newTaprootExecutionCtx :: "32 word \<Rightarrow> taprootExecutionCtx" where
  "newTaprootExecutionCtx inputWitnessSize =
     \<lparr>annex = None,
      codeSepPos = blankCodeSepValue,
      tapLeafHash = replicate 32 0,
      sigOpsBudget = sigOpsDelta + inputWitnessSize,
      mustSucceed = False\<rparr>"

record opcode =
  op_value :: byte
  op_name :: string
  op_length :: int

text \<open>
  Modelled from the spec: the tokenizer (section 4.1: it scans a byte script into a
  stream of opcodes with their immediate data and fails on a malformed push); its source
  file is not part of the sources at hand. A script is finite and every opcode takes at
  least one byte, so the tokenizer is the list of opcodes still to come, followed by the
  parse error that ends the stream when the script is malformed. The parser that produces
  them is the parameter \<open>parseScript\<close> below.
\<close>

record ScriptTokenizer =
  tz_pending :: "(opcode \<times> bytes) list"
  tz_fail :: "error option"
  tz_op :: "opcode option"
  tz_data :: bytes
  tz_err :: "error option"

definition tokenizer_Done :: "ScriptTokenizer \<Rightarrow> bool" where
  "tokenizer_Done t = (tz_err t \<noteq> None \<or> (tz_pending t = [] \<and> tz_fail t = None))"

definition tokenizer_Next :: "ScriptTokenizer \<Rightarrow> bool \<times> ScriptTokenizer" where
  "tokenizer_Next t =
     (if tokenizer_Done t then (False, t)
      else case tz_pending t of
             [] \<Rightarrow> (False, t\<lparr>tz_err := tz_fail t\<rparr>)
           | (op, d) # rest \<Rightarrow> (True, t\<lparr>tz_pending := rest, tz_op := Some op, tz_data := d\<rparr>))"

definition tokenizer_Err :: "ScriptTokenizer \<Rightarrow> error option" where
  "tokenizer_Err t = tz_err t"

type_synonym SigCache = "(bytes \<times> bytes \<times> bytes) list"

record ('h, 'p) Engine =
  tx :: wire_MsgTx
  txIdx :: int
  version :: "16 word"
  sigCache :: "SigCache option"
  hashCache :: "'h option"
  prevOutFetcher :: 'p
  assetPacket :: "AssetPacket option"
  scripts :: "bytes list"
  scriptIdx :: nat
  opcodeIdx :: nat
  lastCodeSep :: nat
  tokenizer :: ScriptTokenizer
  dstack :: stack
  astack :: stack
  condStack :: "int list"
  witnessVersion :: int
  witnessProgram :: "bytes option"
  inputAmount :: int
  taprootCtx :: "taprootExecutionCtx option"

section \<open>Asset introspection opcodes\<close>

definition checkAssetPacket :: "('h, 'p) Engine \<Rightarrow> error option" where
  "checkAssetPacket vm =
     (if assetPacket vm = None
      then Some (scriptError ErrInvalidIndex ''asset packet not set'')
      else None)"

definition checkGroupIndex :: "('h, 'p) Engine \<Rightarrow> int \<Rightarrow> error option" where
  "checkGroupIndex vm k =
     (if k < 0 \<or> k \<ge> int (length (Groups (the (assetPacket vm))))
      then Some (scriptError ErrInvalidIndex ''asset group index out of range'')
      else None)"

definition push_bytes :: "('h, 'p) Engine \<Rightarrow> bytes \<Rightarrow> ('h, 'p) Engine" where
  "push_bytes vm so = vm\<lparr>dstack := PushByteArray (dstack vm) so\<rparr>"

definition push_int :: "('h, 'p) Engine \<Rightarrow> scriptNum \<Rightarrow> ('h, 'p) Engine" where
  "push_int vm n = vm\<lparr>dstack := PushInt (dstack vm) n\<rparr>"

definition pop_int :: "('h, 'p) Engine \<Rightarrow> (error + scriptNum) \<times> ('h, 'p) Engine" where
  "pop_int vm = (case PopInt (dstack vm) of (r, s') \<Rightarrow> (r, vm\<lparr>dstack := s'\<rparr>))"

definition pop_bytes :: "('h, 'p) Engine \<Rightarrow> (error + bytes) \<times> ('h, 'p) Engine" where
  "pop_bytes vm = (case PopByteArray (dstack vm) of (r, s') \<Rightarrow> (r, vm\<lparr>dstack := s'\<rparr>))"

definition pushAssetID :: "('h, 'p) Engine \<Rightarrow> AssetID \<Rightarrow> ('h, 'p) Engine" where
  "pushAssetID vm a = push_int (push_bytes vm (Txid a)) (uint (Gidx a))"

definition le64 :: "64 word \<Rightarrow> bytes" where
  "le64 v = map (\<lambda>i. ucast (drop_bit (8 * i) v)) [0..<8]"

definition pushLE64 :: "('h, 'p) Engine \<Rightarrow> 64 word \<Rightarrow> ('h, 'p) Engine" where
  "pushLE64 vm v = push_bytes vm (le64 v)"

definition popAssetID :: "('h, 'p) Engine \<Rightarrow> (error + AssetID) \<times> ('h, 'p) Engine" where
  "popAssetID vm =
     (case pop_int vm of
        (Inl err, vm1) \<Rightarrow> (Inl err, vm1)
      | (Inr gidx, vm1) \<Rightarrow>
          (case pop_bytes vm1 of
             (Inl err, vm2) \<Rightarrow> (Inl err, vm2)
           | (Inr txidBytes, vm2) \<Rightarrow>
               if length txidBytes \<noteq> 32
               then (Inl (scriptError ErrInvalidStackOperation ''asset ID txid must be 32 bytes''), vm2)
               else (Inr \<lparr>Txid = txidBytes, Gidx = word_of_int gidx\<rparr>, vm2)))"

definition packet :: "('h, 'p) Engine \<Rightarrow> AssetPacket" where
  "packet vm = the (assetPacket vm)"

definition entriesAt :: "(32 word \<rightharpoonup> AssetEntry list) \<Rightarrow> scriptNum \<Rightarrow> AssetEntry list" where
  "entriesAt m i = (case m (word_of_int i) of None \<Rightarrow> [] | Some entries \<Rightarrow> entries)"

definition opcodeInspectNumAssetGroups :: "('h, 'p) Engine \<Rightarrow> error option \<times> ('h, 'p) Engine" where
  "opcodeInspectNumAssetGroups vm =
     (case checkAssetPacket vm of
        Some err \<Rightarrow> (Some err, vm)
      | None \<Rightarrow> (None, push_int vm (int (length (Groups (packet vm))))))"

definition opcodeInspectAssetGroupAssetID :: "('h, 'p) Engine \<Rightarrow> error option \<times> ('h, 'p) Engine" where
  "opcodeInspectAssetGroupAssetID vm =
     (case checkAssetPacket vm of
        Some err \<Rightarrow> (Some err, vm)
      | None \<Rightarrow>
          (case pop_int vm of
             (Inl err, vm1) \<Rightarrow> (Some err, vm1)
           | (Inr k, vm1) \<Rightarrow>
               (case checkGroupIndex vm1 k of
                  Some err \<Rightarrow> (Some err, vm1)
                | None \<Rightarrow> (None, pushAssetID vm1 (group_AssetID (Groups (packet vm1) ! nat k))))))"

definition opcodeInspectAssetGroupCtrl :: "('h, 'p) Engine \<Rightarrow> error option \<times> ('h, 'p) Engine" where
  "opcodeInspectAssetGroupCtrl vm =
     (case checkAssetPacket vm of
        Some err \<Rightarrow> (Some err, vm)
      | None \<Rightarrow>
          (case pop_int vm of
             (Inl err, vm1) \<Rightarrow> (Some err, vm1)
           | (Inr k, vm1) \<Rightarrow>
               (case checkGroupIndex vm1 k of
                  Some err \<Rightarrow> (Some err, vm1)
                | None \<Rightarrow>
                    (case Control (Groups (packet vm1) ! nat k) of
                       None \<Rightarrow> (None, push_int vm1 (- 1))
                     | Some ctrl \<Rightarrow> (None, pushAssetID vm1 ctrl)))))"

text \<open>The search loop of \<^verbatim>\<open>OP_FINDASSETGROUPBYASSETID\<close>; \<open>i\<close> is the index of the head of the list.\<close>

fun findGroup :: "AssetGroup list \<Rightarrow> AssetID \<Rightarrow> int \<Rightarrow> int option" where
  "findGroup [] a i = None"
| "findGroup (g # gs) a i =
     (if Txid (group_AssetID g) = Txid a \<and> Gidx (group_AssetID g) = Gidx a
      then Some i
      else findGroup gs a (i + 1))"

definition opcodeFindAssetGroupByAssetID :: "('h, 'p) Engine \<Rightarrow> error option \<times> ('h, 'p) Engine" where
  "opcodeFindAssetGroupByAssetID vm =
     (case checkAssetPacket vm of
        Some err \<Rightarrow> (Some err, vm)
      | None \<Rightarrow>
          (case popAssetID vm of
             (Inl err, vm1) \<Rightarrow> (Some err, vm1)
           | (Inr a, vm1) \<Rightarrow>
               (case findGroup (Groups (packet vm1)) a 0 of
                  Some i \<Rightarrow> (None, push_int vm1 i)
                | None \<Rightarrow> (None, push_int vm1 (- 1)))))"

definition opcodeInspectAssetGroupMetadataHash :: "('h, 'p) Engine \<Rightarrow> error option \<times> ('h, 'p) Engine" where
  "opcodeInspectAssetGroupMetadataHash vm =
     (case checkAssetPacket vm of
        Some err \<Rightarrow> (Some err, vm)
      | None \<Rightarrow>
          (case pop_int vm of
             (Inl err, vm1) \<Rightarrow> (Some err, vm1)
           | (Inr k, vm1) \<Rightarrow>
               (case checkGroupIndex vm1 k of
                  Some err \<Rightarrow> (Some err, vm1)
                | None \<Rightarrow> (None, push_bytes vm1 (MetadataHash (Groups (packet vm1) ! nat k))))))"

definition opcodeInspectAssetGroupNum :: "('h, 'p) Engine \<Rightarrow> error option \<times> ('h, 'p) Engine" where
  "opcodeInspectAssetGroupNum vm =
     (case checkAssetPacket vm of
        Some err \<Rightarrow> (Some err, vm)
      | None \<Rightarrow>
          (case pop_int vm of
             (Inl err, vm1) \<Rightarrow> (Some err, vm1)
           | (Inr source, vm1) \<Rightarrow>
               (case pop_int vm1 of
                  (Inl err, vm2) \<Rightarrow> (Some err, vm2)
                | (Inr k, vm2) \<Rightarrow>
                    (case checkGroupIndex vm2 k of
                       Some err \<Rightarrow> (Some err, vm2)
                     | None \<Rightarrow>
                         let grp = Groups (packet vm2) ! nat k
                         in if source = 0 then (None, push_int vm2 (int (length (Inputs grp))))
                            else if source = 1 then (None, push_int vm2 (int (length (Outputs grp))))
                            else if source = 2
                            then (None, push_int (push_int vm2 (int (length (Inputs grp))))
                                          (int (length (Outputs grp))))
                            else (Some (scriptError ErrInvalidIndex
                                          ''invalid source for OP_INSPECTASSETGROUPNUM''), vm2)))))"

definition pushAssetInput :: "('h, 'p) Engine \<Rightarrow> AssetInput \<Rightarrow> ('h, 'p) Engine" where
  "pushAssetInput vm inp =
     (let vm1 = push_int vm (uint (in_Type inp));
          vm2 = (if in_Type inp = AssetInputTypeLocal
                 then push_int vm1 (uint (in_InputIndex inp))
                 else push_int (push_bytes vm1 (in_Txid inp)) (uint (in_OutputIndex inp)))
      in pushLE64 vm2 (in_Amount inp))"

definition pushAssetOutput :: "('h, 'p) Engine \<Rightarrow> AssetOutput \<Rightarrow> ('h, 'p) Engine" where
  "pushAssetOutput vm out =
     pushLE64 (push_int (push_int vm (uint (out_Type out))) (uint (out_OutputIndex out)))
       (out_Amount out)"

definition opcodeInspectAssetGroup :: "('h, 'p) Engine \<Rightarrow> error option \<times> ('h, 'p) Engine" where
  "opcodeInspectAssetGroup vm =
     (case checkAssetPacket vm of
        Some err \<Rightarrow> (Some err, vm)
      | None \<Rightarrow>
          (case pop_int vm of
             (Inl err, vm1) \<Rightarrow> (Some err, vm1)
           | (Inr source, vm1) \<Rightarrow>
               (case pop_int vm1 of
                  (Inl err, vm2) \<Rightarrow> (Some err, vm2)
                | (Inr j, vm2) \<Rightarrow>
                    (case pop_int vm2 of
                       (Inl err, vm3) \<Rightarrow> (Some err, vm3)
                     | (Inr k, vm3) \<Rightarrow>
                         (case checkGroupIndex vm3 k of
                            Some err \<Rightarrow> (Some err, vm3)
                          | None \<Rightarrow>
                              let grp = Groups (packet vm3) ! nat k
                              in if source = 0
                                 then (if j < 0 \<or> j \<ge> int (length (Inputs grp))
                                       then (Some (scriptError ErrInvalidIndex
                                                     ''asset group input index out of range''), vm3)
                                       else (None, pushAssetInput vm3 (Inputs grp ! nat j)))
                                 else if source = 1
                                 then (if j < 0 \<or> j \<ge> int (length (Outputs grp))
                                       then (Some (scriptError ErrInvalidIndex
                                                     ''asset group output index out of range''), vm3)
                                       else (None, pushAssetOutput vm3 (Outputs grp ! nat j)))
                                 else (Some (scriptError ErrInvalidIndex
                                               ''invalid source for OP_INSPECTASSETGROUP''), vm3))))))"

text \<open>
  The two accumulation loops of \<^verbatim>\<open>OP_INSPECTASSETGROUPSUM\<close>: \<^verbatim>\<open>inSum += inp.Amount\<close> and
  \<^verbatim>\<open>outSum += out.Amount\<close> on \<^verbatim>\<open>uint64\<close>, where \<open>+\<close> wraps around.
\<close>

definition inSum :: "AssetGroup \<Rightarrow> 64 word" where
  "inSum grp = foldl (\<lambda>s inp. s + in_Amount inp) 0 (Inputs grp)"

definition outSum :: "AssetGroup \<Rightarrow> 64 word" where
  "outSum grp = foldl (\<lambda>s out. s + out_Amount out) 0 (Outputs grp)"

definition opcodeInspectAssetGroupSum :: "('h, 'p) Engine \<Rightarrow> error option \<times> ('h, 'p) Engine" where
  "opcodeInspectAssetGroupSum vm =
     (case checkAssetPacket vm of
        Some err \<Rightarrow> (Some err, vm)
      | None \<Rightarrow>
          (case pop_int vm of
             (Inl err, vm1) \<Rightarrow> (Some err, vm1)
           | (Inr source, vm1) \<Rightarrow>
               (case pop_int vm1 of
                  (Inl err, vm2) \<Rightarrow> (Some err, vm2)
                | (Inr k, vm2) \<Rightarrow>
                    (case checkGroupIndex vm2 k of
                       Some err \<Rightarrow> (Some err, vm2)
                     | None \<Rightarrow>
                         let grp = Groups (packet vm2) ! nat k
                         in if source = 0 then (None, pushLE64 vm2 (inSum grp))
                            else if source = 1 then (None, pushLE64 vm2 (outSum grp))
                            else if source = 2
                            then (None, pushLE64 (pushLE64 vm2 (inSum grp)) (outSum grp))
                            else (Some (scriptError ErrInvalidIndex
                                          ''invalid source for OP_INSPECTASSETGROUPSUM''), vm2)))))"

definition opcodeInspectOutAssetCount :: "('h, 'p) Engine \<Rightarrow> error option \<times> ('h, 'p) Engine" where
  "opcodeInspectOutAssetCount vm =
     (case checkAssetPacket vm of
        Some err \<Rightarrow> (Some err, vm)
      | None \<Rightarrow>
          (case pop_int vm of
             (Inl err, vm1) \<Rightarrow> (Some err, vm1)
           | (Inr out, vm1) \<Rightarrow>
               (None, push_int vm1 (int (length (entriesAt (OutputAssets (packet vm1)) out))))))"

definition pushEntry :: "('h, 'p) Engine \<Rightarrow> AssetEntry \<Rightarrow> ('h, 'p) Engine" where
  "pushEntry vm entry = pushLE64 (pushAssetID vm (entry_AssetID entry)) (entry_Amount entry)"

definition opcodeInspectOutAssetAt :: "('h, 'p) Engine \<Rightarrow> error option \<times> ('h, 'p) Engine" where
  "opcodeInspectOutAssetAt vm =
     (case checkAssetPacket vm of
        Some err \<Rightarrow> (Some err, vm)
      | None \<Rightarrow>
          (case pop_int vm of
             (Inl err, vm1) \<Rightarrow> (Some err, vm1)
           | (Inr t, vm1) \<Rightarrow>
               (case pop_int vm1 of
                  (Inl err, vm2) \<Rightarrow> (Some err, vm2)
                | (Inr out, vm2) \<Rightarrow>
                    let entries = entriesAt (OutputAssets (packet vm2)) out
                    in if t < 0 \<or> t \<ge> int (length entries)
                       then (Some (scriptError ErrInvalidIndex ''output asset index out of range''), vm2)
                       else (None, pushEntry vm2 (entries ! nat t)))))"

text \<open>The lookup loop of the two \<^verbatim>\<open>LOOKUP\<close> opcodes: the first entry with the asset id.\<close>

fun lookupEntry :: "AssetEntry list \<Rightarrow> AssetID \<Rightarrow> AssetEntry option" where
  "lookupEntry [] a = None"
| "lookupEntry (entry # entries) a =
     (if Txid (entry_AssetID entry) = Txid a \<and> Gidx (entry_AssetID entry) = Gidx a
      then Some entry
      else lookupEntry entries a)"

definition opcodeInspectOutAssetLookup :: "('h, 'p) Engine \<Rightarrow> error option \<times> ('h, 'p) Engine" where
  "opcodeInspectOutAssetLookup vm =
     (case checkAssetPacket vm of
        Some err \<Rightarrow> (Some err, vm)
      | None \<Rightarrow>
          (case popAssetID vm of
             (Inl err, vm1) \<Rightarrow> (Some err, vm1)
           | (Inr a, vm1) \<Rightarrow>
               (case pop_int vm1 of
                  (Inl err, vm2) \<Rightarrow> (Some err, vm2)
                | (Inr out, vm2) \<Rightarrow>
                    (case lookupEntry (entriesAt (OutputAssets (packet vm2)) out) a of
                       Some entry \<Rightarrow> (None, pushLE64 vm2 (entry_Amount entry))
                     | None \<Rightarrow> (None, push_int vm2 (- 1))))))"

definition opcodeInspectInAssetCount :: "('h, 'p) Engine \<Rightarrow> error option \<times> ('h, 'p) Engine" where
  "opcodeInspectInAssetCount vm =
     (case checkAssetPacket vm of
        Some err \<Rightarrow> (Some err, vm)
      | None \<Rightarrow>
          (case pop_int vm of
             (Inl err, vm1) \<Rightarrow> (Some err, vm1)
           | (Inr i, vm1) \<Rightarrow>
               (None, push_int vm1 (int (length (entriesAt (InputAssets (packet vm1)) i))))))"

definition opcodeInspectInAssetAt :: "('h, 'p) Engine \<Rightarrow> error option \<times> ('h, 'p) Engine" where
  "opcodeInspectInAssetAt vm =
     (case checkAssetPacket vm of
        Some err \<Rightarrow> (Some err, vm)
      | None \<Rightarrow>
          (case pop_int vm of
             (Inl err, vm1) \<Rightarrow> (Some err, vm1)
           | (Inr t, vm1) \<Rightarrow>
               (case pop_int vm1 of
                  (Inl err, vm2) \<Rightarrow> (Some err, vm2)
                | (Inr i, vm2) \<Rightarrow>
                    let entries = entriesAt (InputAssets (packet vm2)) i
                    in if t < 0 \<or> t \<ge> int (length entries)
                       then (Some (scriptError ErrInvalidIndex ''input asset index out of range''), vm2)
                       else (None, pushEntry vm2 (entries ! nat t)))))"

definition opcodeInspectInAssetLookup :: "('h, 'p) Engine \<Rightarrow> error option \<times> ('h, 'p) Engine" where
  "opcodeInspectInAssetLookup vm =
     (case checkAssetPacket vm of
        Some err \<Rightarrow> (Some err, vm)
      | None \<Rightarrow>
          (case popAssetID vm of
             (Inl err, vm1) \<Rightarrow> (Some err, vm1)
           | (Inr a, vm1) \<Rightarrow>
               (case pop_int vm1 of
                  (Inl err, vm2) \<Rightarrow> (Some err, vm2)
                | (Inr i, vm2) \<Rightarrow>
                    (case lookupEntry (entriesAt (InputAssets (packet vm2)) i) a of
                       Some entry \<Rightarrow> (None, pushLE64 vm2 (entry_Amount entry))
                     | None \<Rightarrow> (None, push_int vm2 (- 1))))))"

text \<open>The counting and indexing loops of the four intent opcodes.\<close>

fun countIntentOutputs :: "AssetOutput list \<Rightarrow> int \<Rightarrow> int" where
  "countIntentOutputs [] count = count"
| "countIntentOutputs (out # outs) count =
     countIntentOutputs outs (if out_Type out = AssetOutputTypeIntent then count + 1 else count)"

fun countIntentInputs :: "AssetInput list \<Rightarrow> int \<Rightarrow> int" where
  "countIntentInputs [] count = count"
| "countIntentInputs (inp # inps) count =
     countIntentInputs inps (if in_Type inp = AssetInputTypeIntent then count + 1 else count)"

fun nthIntentOutput :: "AssetOutput list \<Rightarrow> int \<Rightarrow> int \<Rightarrow> AssetOutput option" where
  "nthIntentOutput [] j idx = None"
| "nthIntentOutput (out # outs) j idx =
     (if out_Type out = AssetOutputTypeIntent
      then (if idx = j then Some out else nthIntentOutput outs j (idx + 1))
      else nthIntentOutput outs j idx)"

fun nthIntentInput :: "AssetInput list \<Rightarrow> int \<Rightarrow> int \<Rightarrow> AssetInput option" where
  "nthIntentInput [] j idx = None"
| "nthIntentInput (inp # inps) j idx =
     (if in_Type inp = AssetInputTypeIntent
      then (if idx = j then Some inp else nthIntentInput inps j (idx + 1))
      else nthIntentInput inps j idx)"

definition opcodeInspectGroupIntentOutCount :: "('h, 'p) Engine \<Rightarrow> error option \<times> ('h, 'p) Engine" where
  "opcodeInspectGroupIntentOutCount vm =
     (case checkAssetPacket vm of
        Some err \<Rightarrow> (Some err, vm)
      | None \<Rightarrow>
          (case pop_int vm of
             (Inl err, vm1) \<Rightarrow> (Some err, vm1)
           | (Inr k, vm1) \<Rightarrow>
               (case checkGroupIndex vm1 k of
                  Some err \<Rightarrow> (Some err, vm1)
                | None \<Rightarrow>
                    (None, push_int vm1 (countIntentOutputs (Outputs (Groups (packet vm1) ! nat k)) 0)))))"

definition opcodeInspectGroupIntentOut :: "('h, 'p) Engine \<Rightarrow> error option \<times> ('h, 'p) Engine" where
  "opcodeInspectGroupIntentOut vm =
     (case checkAssetPacket vm of
        Some err \<Rightarrow> (Some err, vm)
      | None \<Rightarrow>
          (case pop_int vm of
             (Inl err, vm1) \<Rightarrow> (Some err, vm1)
           | (Inr j, vm1) \<Rightarrow>
               (case pop_int vm1 of
                  (Inl err, vm2) \<Rightarrow> (Some err, vm2)
                | (Inr k, vm2) \<Rightarrow>
                    (case checkGroupIndex vm2 k of
                       Some err \<Rightarrow> (Some err, vm2)
                     | None \<Rightarrow>
                         (case nthIntentOutput (Outputs (Groups (packet vm2) ! nat k)) j 0 of
                            Some out \<Rightarrow>
                              (None, pushLE64 (push_int vm2 (uint (out_OutputIndex out))) (out_Amount out))
                          | None \<Rightarrow>
                              (Some (scriptError ErrInvalidIndex ''intent output index out of range''),
                               vm2))))))"

definition opcodeInspectGroupIntentInCount :: "('h, 'p) Engine \<Rightarrow> error option \<times> ('h, 'p) Engine" where
  "opcodeInspectGroupIntentInCount vm =
     (case checkAssetPacket vm of
        Some err \<Rightarrow> (Some err, vm)
      | None \<Rightarrow>
          (case pop_int vm of
             (Inl err, vm1) \<Rightarrow> (Some err, vm1)
           | (Inr k, vm1) \<Rightarrow>
               (case checkGroupIndex vm1 k of
                  Some err \<Rightarrow> (Some err, vm1)
                | None \<Rightarrow>
                    (None, push_int vm1 (countIntentInputs (Inputs (Groups (packet vm1) ! nat k)) 0)))))"

definition opcodeInspectGroupIntentIn :: "('h, 'p) Engine \<Rightarrow> error option \<times> ('h, 'p) Engine" where
  "opcodeInspectGroupIntentIn vm =
     (case checkAssetPacket vm of
        Some err \<Rightarrow> (Some err, vm)
      | None \<Rightarrow>
          (case pop_int vm of
             (Inl err, vm1) \<Rightarrow> (Some err, vm1)
           | (Inr j, vm1) \<Rightarrow>
               (case pop_int vm1 of
                  (Inl err, vm2) \<Rightarrow> (Some err, vm2)
                | (Inr k, vm2) \<Rightarrow>
                    (case checkGroupIndex vm2 k of
                       Some err \<Rightarrow> (Some err, vm2)
                     | None \<Rightarrow>
                         (case nthIntentInput (Inputs (Groups (packet vm2) ! nat k)) j 0 of
                            Some inp \<Rightarrow>
                              (None, pushLE64 (push_int (push_bytes vm2 (in_Txid inp))
                                                 (uint (in_OutputIndex inp))) (in_Amount inp))
                          | None \<Rightarrow>
                              (Some (scriptError ErrInvalidIndex ''intent input index out of range''),
                               vm2))))))"

text \<open>
  The asset family of the opcode table, \<^verbatim>\<open>OP_INSPECTNUMASSETGROUPS\<close> through
  \<^verbatim>\<open>OP_INSPECTGROUPINTENTIN\<close>, with the handler of each opcode.
\<close>

datatype asset_opcode =
    OP_INSPECTNUMASSETGROUPS
  | OP_INSPECTASSETGROUPASSETID
  | OP_INSPECTASSETGROUPCTRL
  | OP_FINDASSETGROUPBYASSETID
  | OP_INSPECTASSETGROUPMETADATAHASH
  | OP_INSPECTASSETGROUPNUM
  | OP_INSPECTASSETGROUP
  | OP_INSPECTASSETGROUPSUM
  | OP_INSPECTOUTASSETCOUNT
  | OP_INSPECTOUTASSETAT
  | OP_INSPECTOUTASSETLOOKUP
  | OP_INSPECTINASSETCOUNT
  | OP_INSPECTINASSETAT
  | OP_INSPECTINASSETLOOKUP
  | OP_INSPECTGROUPINTENTOUTCOUNT
  | OP_INSPECTGROUPINTENTOUT
  | OP_INSPECTGROUPINTENTINCOUNT
  | OP_INSPECTGROUPINTENTIN

fun asset_opfunc :: "asset_opcode \<Rightarrow> ('h, 'p) Engine \<Rightarrow> error option \<times> ('h, 'p) Engine" where
  "asset_opfunc OP_INSPECTNUMASSETGROUPS = opcodeInspectNumAssetGroups"
| "asset_opfunc OP_INSPECTASSETGROUPASSETID = opcodeInspectAssetGroupAssetID"
| "asset_opfunc OP_INSPECTASSETGROUPCTRL = opcodeInspectAssetGroupCtrl"
| "asset_opfunc OP_FINDASSETGROUPBYASSETID = opcodeFindAssetGroupByAssetID"
| "asset_opfunc OP_INSPECTASSETGROUPMETADATAHASH = opcodeInspectAssetGroupMetadataHash"
| "asset_opfunc OP_INSPECTASSETGROUPNUM = opcodeInspectAssetGroupNum"
| "asset_opfunc OP_INSPECTASSETGROUP = opcodeInspectAssetGroup"
| "asset_opfunc OP_INSPECTASSETGROUPSUM = opcodeInspectAssetGroupSum"
| "asset_opfunc OP_INSPECTOUTASSETCOUNT = opcodeInspectOutAssetCount"
| "asset_opfunc OP_INSPECTOUTASSETAT = opcodeInspectOutAssetAt"
| "asset_opfunc OP_INSPECTOUTASSETLOOKUP = opcodeInspectOutAssetLookup"
| "asset_opfunc OP_INSPECTINASSETCOUNT = opcodeInspectInAssetCount"
| "asset_opfunc OP_INSPECTINASSETAT = opcodeInspectInAssetAt"
| "asset_opfunc OP_INSPECTINASSETLOOKUP = opcodeInspectInAssetLookup"
| "asset_opfunc OP_INSPECTGROUPINTENTOUTCOUNT = opcodeInspectGroupIntentOutCount"
| "asset_opfunc OP_INSPECTGROUPINTENTOUT = opcodeInspectGroupIntentOut"
| "asset_opfunc OP_INSPECTGROUPINTENTINCOUNT = opcodeInspectGroupIntentInCount"
| "asset_opfunc OP_INSPECTGROUPINTENTIN = opcodeInspectGroupIntentIn"

section \<open>Library functions and the opcode table\<close>

text \<open>
  The engine calls into \<^verbatim>\<open>btcd\<close> (\<^verbatim>\<open>txscript\<close>, \<^verbatim>\<open>wire\<close>, \<^verbatim>\<open>schnorr\<close>) and into the
  opcode table and the script parser of this package, whose sources are not at hand. They are
  parameters of the model, collected in one record, so that every theorem below holds for
  whatever these functions compute:
  \<^item> \<open>parseScript\<close>: the opcodes of a script with their data, and the parse error if any;
  \<^item> \<open>opfunc\<close>: the handler of an opcode in the opcode table;
  \<^item> \<open>WitnessSerializeSize\<close>: \<^verbatim>\<open>wire.TxWitness.SerializeSize\<close>;
  \<^item> \<open>VerifyTaprootKeySpend\<close>, \<open>ParseControlBlock\<close>, \<open>VerifyTaprootLeafCommitment\<close>,
    \<open>TapHash\<close> (of \<^verbatim>\<open>NewBaseTapLeaf(script)\<close>), \<open>CalcTaprootSignatureHash\<close>: \<^verbatim>\<open>txscript\<close>;
  \<^item> \<open>ParsePubKey\<close>, \<open>ParseSignature\<close>, \<open>SigVerify\<close>: \<^verbatim>\<open>schnorr\<close>.
\<close>

record ControlBlock =
  LeafVersion :: byte
  cb_bytes :: bytes

datatype PublicKey = PublicKey bytes
datatype Signature = Signature bytes

record ('h, 'p) txscript_env =
  parseScript :: "16 word \<Rightarrow> bytes \<Rightarrow> (opcode \<times> bytes) list \<times> error option"
  opfunc :: "opcode \<Rightarrow> bytes \<Rightarrow> ('h, 'p) Engine \<Rightarrow> error option \<times> ('h, 'p) Engine"
  WitnessSerializeSize :: "bytes list \<Rightarrow> int"
  VerifyTaprootKeySpend ::
    "bytes \<Rightarrow> bytes \<Rightarrow> wire_MsgTx \<Rightarrow> int \<Rightarrow> 'p \<Rightarrow> 'h option \<Rightarrow> SigCache option \<Rightarrow> error option"
  ParseControlBlock :: "bytes \<Rightarrow> error + ControlBlock"
  VerifyTaprootLeafCommitment :: "ControlBlock \<Rightarrow> bytes \<Rightarrow> bytes \<Rightarrow> error option"
  TapHash :: "bytes \<Rightarrow> bytes"
  CalcTaprootSignatureHash ::
    "'h option \<Rightarrow> byte \<Rightarrow> wire_MsgTx \<Rightarrow> int \<Rightarrow> 'p \<Rightarrow> error + bytes"
  ParsePubKey :: "bytes \<Rightarrow> error + PublicKey"
  ParseSignature :: "bytes \<Rightarrow> error + Signature"
  SigVerify :: "Signature \<Rightarrow> bytes \<Rightarrow> PublicKey \<Rightarrow> bool"

definition MakeScriptTokenizer :: "('h, 'p) txscript_env \<Rightarrow> 16 word \<Rightarrow> bytes \<Rightarrow> ScriptTokenizer" where
  "MakeScriptTokenizer env scriptVersion script =
     (case parseScript env scriptVersion script of
        (ops, fail) \<Rightarrow>
          \<lparr>tz_pending = ops, tz_fail = fail, tz_op = None, tz_data = [], tz_err = None\<rparr>)"

definition MaxStackSize :: int where "MaxStackSize = 1000"
definition MaxScriptElementSize :: nat where "MaxScriptElementSize = 520"
definition payToTaprootDataSize :: nat where "payToTaprootDataSize = 32"
definition TaprootWitnessVersion :: int where "TaprootWitnessVersion = 1"
definition TaprootAnnexTag :: byte where "TaprootAnnexTag = 0x50"
definition BaseLeafVersion :: byte where "BaseLeafVersion = 0xc0"
definition OpCondTrue :: int where "OpCondTrue = 1"

definition OP_0 :: byte where "OP_0 = 0x00"
definition OP_PUSHDATA1 :: byte where "OP_PUSHDATA1 = 0x4c"
definition OP_PUSHDATA2 :: byte where "OP_PUSHDATA2 = 0x4d"
definition OP_PUSHDATA4 :: byte where "OP_PUSHDATA4 = 0x4e"
definition OP_1NEGATE :: byte where "OP_1NEGATE = 0x4f"
definition OP_1 :: byte where "OP_1 = 0x51"
definition OP_IF :: byte where "OP_IF = 0x63"
definition OP_NOTIF :: byte where "OP_NOTIF = 0x64"
definition OP_VERIF :: byte where "OP_VERIF = 0x65"
definition OP_VERNOTIF :: byte where "OP_VERNOTIF = 0x66"
definition OP_ELSE :: byte where "OP_ELSE = 0x67"
definition OP_ENDIF :: byte where "OP_ENDIF = 0x68"

section \<open>Executing opcodes\<close>

definition isBranchExecuting :: "('h, 'p) Engine \<Rightarrow> bool" where
  "isBranchExecuting vm =
     (if length (condStack vm) = 0 then True else last (condStack vm) = OpCondTrue)"

definition isOpcodeAlwaysIllegal :: "byte \<Rightarrow> bool" where
  "isOpcodeAlwaysIllegal opc = (opc = OP_VERIF \<or> opc = OP_VERNOTIF)"

definition isOpcodeConditional :: "byte \<Rightarrow> bool" where
  "isOpcodeConditional opc = (opc = OP_IF \<or> opc = OP_NOTIF \<or> opc = OP_ELSE \<or> opc = OP_ENDIF)"

definition checkMinimalDataPush :: "opcode \<Rightarrow> bytes \<Rightarrow> error option" where
  "checkMinimalDataPush op data =
     (let opcodeVal = op_value op; dataLen = length data
      in if dataLen = 0 \<and> opcodeVal \<noteq> OP_0
         then Some (scriptErrorf ErrMinimalData
                ''zero length data push is encoded with opcode %s instead of OP_0''
                [AStr (op_name op)])
         else if dataLen = 1 \<and> hd data \<ge> 1 \<and> hd data \<le> 16
         then (if opcodeVal \<noteq> OP_1 + hd data - 1
               then Some (scriptErrorf ErrMinimalData
                      ''data push of the value %d encoded with opcode %s instead of OP_%d''
                      [AInt (uint (hd data)), AStr (op_name op), AInt (uint (hd data))])
               else None)
         else if dataLen = 1 \<and> hd data = 0x81
         then (if opcodeVal \<noteq> OP_1NEGATE
               then Some (scriptErrorf ErrMinimalData
                      ''data push of the value -1 encoded with opcode %s instead of OP_1NEGATE''
                      [AStr (op_name op)])
               else None)
         else if dataLen \<le> 75
         then (if uint opcodeVal \<noteq> int dataLen
               then Some (scriptErrorf ErrMinimalData
                      ''data push of %d bytes encoded with opcode %s instead of OP_DATA_%d''
                      [AInt (int dataLen), AStr (op_name op), AInt (int dataLen)])
               else None)
         else if dataLen \<le> 255
         then (if opcodeVal \<noteq> OP_PUSHDATA1
               then Some (scriptErrorf ErrMinimalData
                      ''data push of %d bytes encoded with opcode %s instead of OP_PUSHDATA1''
                      [AInt (int dataLen), AStr (op_name op)])
               else None)
         else if dataLen \<le> 65535
         then (if opcodeVal \<noteq> OP_PUSHDATA2
               then Some (scriptErrorf ErrMinimalData
                      ''data push of %d bytes encoded with opcode %s instead of OP_PUSHDATA2''
                      [AInt (int dataLen), AStr (op_name op)])
               else None)
         else None)"

definition executeOpcode ::
  "('h, 'p) txscript_env \<Rightarrow> ('h, 'p) Engine \<Rightarrow> opcode \<Rightarrow> bytes \<Rightarrow> error option \<times> ('h, 'p) Engine" where
  "executeOpcode env vm op data =
     (if isOpcodeAlwaysIllegal (op_value op)
      then (Some (scriptErrorf ErrReservedOpcode ''attempt to execute reserved opcode %s''
                    [AStr (op_name op)]), vm)
      else if length data > MaxScriptElementSize
      then (Some (scriptErrorf ErrElementTooBig ''element size %d exceeds max allowed size %d''
                    [AInt (int (length data)), AInt (int MaxScriptElementSize)]), vm)
      else if \<not> isBranchExecuting vm \<and> \<not> isOpcodeConditional (op_value op)
      then (None, vm)
      else case (if verifyMinimalData (dstack vm) \<and> isBranchExecuting vm \<and> op_value op \<le> OP_PUSHDATA4
                 then checkMinimalDataPush op data else None) of
             Some err \<Rightarrow> (Some err, vm)
           | None \<Rightarrow> opfunc env op data vm)"

definition checkValidPC :: "('h, 'p) Engine \<Rightarrow> error option" where
  "checkValidPC vm =
     (if scriptIdx vm \<ge> length (scripts vm)
      then Some (scriptErrorf ErrInvalidProgramCounter ''script index %d beyond total scripts %d''
                   [AInt (int (scriptIdx vm)), AInt (int (length (scripts vm)))])
      else None)"

definition isWitnessVersionActive :: "('h, 'p) Engine \<Rightarrow> int \<Rightarrow> bool" where
  "isWitnessVersionActive vm ver = (witnessProgram vm \<noteq> None \<and> witnessVersion vm mod 2 ^ 64 = ver)"

text \<open>\<^verbatim>\<open>checkScriptParses\<close>: call \<^verbatim>\<open>Next\<close> until it returns false, then return \<^verbatim>\<open>Err\<close>.\<close>

function drainTokenizer :: "ScriptTokenizer \<Rightarrow> ScriptTokenizer" where
  "drainTokenizer t = (case tokenizer_Next t of (True, t') \<Rightarrow> drainTokenizer t' | (False, t') \<Rightarrow> t')"
  by pat_completeness auto
termination
  by (relation "measure (\<lambda>t. length (tz_pending t))")
     (auto simp: tokenizer_Next_def split: if_splits list.splits)

declare drainTokenizer.simps [simp del]

definition checkScriptParses :: "('h, 'p) txscript_env \<Rightarrow> 16 word \<Rightarrow> bytes \<Rightarrow> error option" where
  "checkScriptParses env scriptVersion script =
     tokenizer_Err (drainTokenizer (MakeScriptTokenizer env scriptVersion script))"

definition isAnnexedWitness :: "bytes list \<Rightarrow> bool" where
  "isAnnexedWitness witness =
     (if length witness < 2 then False
      else let lastElement = last witness
           in length lastElement > 0 \<and> hd lastElement = TaprootAnnexTag)"

definition extractAnnex :: "bytes list \<Rightarrow> error + bytes" where
  "extractAnnex witness =
     (if \<not> isAnnexedWitness witness then Inl (scriptError ErrWitnessHasNoAnnex '''')
      else Inr (last witness))"

definition getStack :: "stack \<Rightarrow> bytes list" where
  "getStack s = stk s"

definition setStack :: "stack \<Rightarrow> bytes list \<Rightarrow> stack" where
  "setStack s data = foldl PushByteArray (snd (DropN s (Depth s))) data"

definition GetStack :: "('h, 'p) Engine \<Rightarrow> bytes list" where
  "GetStack vm = getStack (dstack vm)"

definition SetStack :: "('h, 'p) Engine \<Rightarrow> bytes list \<Rightarrow> ('h, 'p) Engine" where
  "SetStack vm data = vm\<lparr>dstack := setStack (dstack vm) data\<rparr>"

definition SetAssetPacket :: "('h, 'p) Engine \<Rightarrow> AssetPacket option \<Rightarrow> ('h, 'p) Engine" where
  "SetAssetPacket vm p = vm\<lparr>assetPacket := p\<rparr>"

section \<open>Witness program verification\<close>

definition witnessProgramLen :: "('h, 'p) Engine \<Rightarrow> nat" where
  "witnessProgramLen vm = (case witnessProgram vm of None \<Rightarrow> 0 | Some prog \<Rightarrow> length prog)"

definition update_ctx ::
  "(taprootExecutionCtx \<Rightarrow> taprootExecutionCtx) \<Rightarrow> ('h, 'p) Engine \<Rightarrow> ('h, 'p) Engine" where
  "update_ctx f vm = vm\<lparr>taprootCtx := map_option f (taprootCtx vm)\<rparr>"

text \<open>
  The tail of \<^verbatim>\<open>verifyWitnessProgram\<close>, which only the script path reaches: the limits
  on the starting stack.
\<close>

definition checkInitialStack :: "('h, 'p) Engine \<Rightarrow> error option" where
  "checkInitialStack vm =
     (if Depth (dstack vm) > MaxStackSize
      then Some (scriptErrorf ErrStackOverflow ''tapscript stack size %d > max allowed %d''
                   [AInt (Depth (dstack vm)), AInt MaxStackSize])
      else case find (\<lambda>witElement. length witElement > MaxScriptElementSize) (GetStack vm) of
             Some witElement \<Rightarrow>
               Some (scriptErrorf ErrElementTooBig ''element size %d exceeds max allowed size %d''
                       [AInt (int (length witElement)), AInt (int MaxScriptElementSize)])
           | None \<Rightarrow> None)"

definition verifyWitnessProgram ::
  "('h, 'p) txscript_env \<Rightarrow> ('h, 'p) Engine \<Rightarrow> bytes list \<Rightarrow> error option \<times> ('h, 'p) Engine" where
  "verifyWitnessProgram env vm witness0 =
     (if \<not> isWitnessVersionActive vm TaprootWitnessVersion \<or> witnessProgramLen vm \<noteq> payToTaprootDataSize
      then (Some (PlainError ''arkscript engine only supports taproot''), vm)
      else if length witness0 = 0
      then (Some (scriptError ErrWitnessProgramEmpty ''witness program empty passed empty witness''), vm)
      else
        let vm1 = vm\<lparr>taprootCtx :=
                     Some (newTaprootExecutionCtx (word_of_int (WitnessSerializeSize env witness0)))\<rparr>;
            annexed = isAnnexedWitness witness0;
            vm2 = (if annexed
                   then update_ctx (\<lambda>c. c\<lparr>annex := (case extractAnnex witness0 of
                                                        Inl _ \<Rightarrow> None | Inr a \<Rightarrow> Some a)\<rparr>) vm1
                   else vm1);
            witness = (if annexed then butlast witness0 else witness0)
        in if length witness = 1
           then (let rawSig = hd witness
                 in case VerifyTaprootKeySpend env (the (witnessProgram vm2)) rawSig (tx vm2) (txIdx vm2)
                           (prevOutFetcher vm2) (hashCache vm2) (sigCache vm2) of
                      Some err \<Rightarrow> (Some err, vm2)
                    | None \<Rightarrow> (None, update_ctx (\<lambda>c. c\<lparr>mustSucceed := True\<rparr>) vm2))
           else (case ParseControlBlock env (last witness) of
                   Inl err \<Rightarrow> (Some err, vm2)
                 | Inr controlBlock \<Rightarrow>
                     (let witnessScript = witness ! (length witness - 2)
                      in (case VerifyTaprootLeafCommitment env controlBlock (the (witnessProgram vm2))
                                 witnessScript of
                            Some err \<Rightarrow> (Some err, vm2)
                          | None \<Rightarrow>
                              (if LeafVersion controlBlock \<noteq> BaseLeafVersion
                               then (Some (scriptErrorf ErrDiscourageUpgradeableTaprootVersion
                                             ''tapscript is attempting to use version: %v''
                                             [AInt (uint (LeafVersion controlBlock))]), vm2)
                               else (case checkScriptParses env (version vm2) witnessScript of
                                       Some err \<Rightarrow> (Some err, vm2)
                                     | None \<Rightarrow>
                                         (let vm3 = update_ctx
                                                      (\<lambda>c. c\<lparr>tapLeafHash := TapHash env witnessScript\<rparr>) vm2;
                                              vm4 = vm3\<lparr>scripts := scripts vm3 @ [witnessScript]\<rparr>;
                                              vm5 = SetStack vm4 (take (length witness - 2) witness)
                                          in (checkInitialStack vm5, vm5))))))))"

section \<open>The dispatch loop\<close>

definition CheckErrorCondition :: "('h, 'p) Engine \<Rightarrow> bool \<Rightarrow> error option \<times> ('h, 'p) Engine" where
  "CheckErrorCondition vm finalScript =
     (if (case taprootCtx vm of None \<Rightarrow> False | Some c \<Rightarrow> mustSucceed c) then (None, vm)
      else if scriptIdx vm < length (scripts vm)
      then (Some (scriptError ErrScriptUnfinished ''error check when script unfinished''), vm)
      else if finalScript \<and> Depth (dstack vm) \<noteq> 1
      then (Some (scriptErrorf ErrCleanStack ''stack must contain exactly one item (contains %d)''
                    [AInt (Depth (dstack vm))]), vm)
      else if Depth (dstack vm) < 1
      then (Some (scriptError ErrEmptyStack ''stack empty at end of script execution''), vm)
      else case PopBool (dstack vm) of
             (Inl err, s') \<Rightarrow> (Some err, vm\<lparr>dstack := s'\<rparr>)
           | (Inr v, s') \<Rightarrow>
               if \<not> v
               then (Some (scriptError ErrEvalFalse ''false stack entry at end of script execution''),
                     vm\<lparr>dstack := s'\<rparr>)
               else (None, vm\<lparr>dstack := s'\<rparr>))"

text \<open>
  What \<^verbatim>\<open>Step\<close> does once the tokenizer is done with the current script.
  \<open>advanceScript\<close> is its \<^verbatim>\<open>switch\<close> statement: the move to the next script, with the
  witness program verified on leaving the public key script.
\<close>

definition advanceScript ::
  "('h, 'p) txscript_env \<Rightarrow> ('h, 'p) Engine \<Rightarrow> error option \<times> ('h, 'p) Engine" where
  "advanceScript env vm =
     (if scriptIdx vm = 1 \<and> witnessProgram vm \<noteq> None
      then (let vm' = vm\<lparr>scriptIdx := scriptIdx vm + 1\<rparr>
            in if txIdx vm' < 0 \<or> txIdx vm' \<ge> int (length (TxIn (tx vm')))
               then (Some (GoPanic ''index out of range''), vm')
               else verifyWitnessProgram env vm' (Witness (TxIn (tx vm') ! nat (txIdx vm'))))
      else (None, vm\<lparr>scriptIdx := scriptIdx vm + 1\<rparr>))"

definition nextScript ::
  "('h, 'p) txscript_env \<Rightarrow> ('h, 'p) Engine \<Rightarrow> bool \<times> error option \<times> ('h, 'p) Engine" where
  "nextScript env vm =
     (if length (condStack vm) \<noteq> 0
      then (False, Some (scriptError ErrUnbalancedConditional
                           ''end of script reached in conditional execution''), vm)
      else
        let vm1 = vm\<lparr>astack := snd (DropN (astack vm) (Depth (astack vm)))\<rparr>;
            vm2 = vm1\<lparr>opcodeIdx := 0\<rparr>
        in case advanceScript env vm2 of
             (Some err, vm3) \<Rightarrow> (False, Some err, vm3)
           | (None, vm3) \<Rightarrow>
               let vm4 = (if scriptIdx vm3 < length (scripts vm3)
                             \<and> length (scripts vm3 ! scriptIdx vm3) = 0
                          then vm3\<lparr>scriptIdx := scriptIdx vm3 + 1\<rparr> else vm3);
                   vm5 = vm4\<lparr>lastCodeSep := 0\<rparr>
               in if scriptIdx vm5 \<ge> length (scripts vm5) then (True, None, vm5)
                  else (False, None,
                        vm5\<lparr>tokenizer := MakeScriptTokenizer env (version vm5)
                                             (scripts vm5 ! scriptIdx vm5)\<rparr>))"

definition Step ::
  "('h, 'p) txscript_env \<Rightarrow> ('h, 'p) Engine \<Rightarrow> bool \<times> error option \<times> ('h, 'p) Engine" where
  "Step env vm =
     (case checkValidPC vm of
        Some err \<Rightarrow> (True, Some err, vm)
      | None \<Rightarrow>
          (case tokenizer_Next (tokenizer vm) of
             (False, tz) \<Rightarrow>
               (let vm1 = vm\<lparr>tokenizer := tz\<rparr>
                in case tokenizer_Err tz of
                     Some err \<Rightarrow> (False, Some err, vm1)
                   | None \<Rightarrow>
                       (True, Some (scriptErrorf ErrInvalidProgramCounter
                                      ''attempt to step beyond script index %d (bytes %x)''
                                      [AInt (int (scriptIdx vm1)),
                                       ABytes (scripts vm1 ! scriptIdx vm1)]), vm1))
           | (True, tz) \<Rightarrow>
               (let vm1 = vm\<lparr>tokenizer := tz\<rparr>
                in case tz_op tz of
                     None \<Rightarrow> (True, Some (GoPanic ''nil pointer dereference''), vm1)
                   | Some op \<Rightarrow>
                       (case executeOpcode env vm1 op (tz_data tz) of
                          (Some err, vm2) \<Rightarrow> (True, Some err, vm2)
                        | (None, vm2) \<Rightarrow>
                            let combinedStackSize = Depth (dstack vm2) + Depth (astack vm2)
                            in if combinedStackSize > MaxStackSize
                               then (False, Some (scriptErrorf ErrStackOverflow
                                                    ''combined stack size %d > max allowed %d''
                                                    [AInt combinedStackSize, AInt MaxStackSize]), vm2)
                               else
                                 let vm3 = vm2\<lparr>opcodeIdx := opcodeIdx vm2 + 1\<rparr>
                                 in if tokenizer_Done (tokenizer vm3) then nextScript env vm3
                                    else (False, None, vm3)))))"



section \<open>Creating an engine\<close>

text \<open>
  \<^verbatim>\<open>NewEngine\<close> calls three more functions of \<^verbatim>\<open>txscript\<close>, which read a script only:
  \<^verbatim>\<open>IsPushOnlyScript\<close>, \<^verbatim>\<open>IsWitnessProgram\<close> and \<^verbatim>\<open>ExtractWitnessProgramInfo\<close>.
\<close>

record txscript_scripts =
  IsPushOnlyScript :: "bytes \<Rightarrow> bool"
  IsWitnessProgram :: "bytes \<Rightarrow> bool"
  ExtractWitnessProgramInfo :: "bytes \<Rightarrow> error + (int \<times> bytes)"

definition MaxScriptSize :: nat where "MaxScriptSize = 10000"

text \<open>
  The loop of \<^verbatim>\<open>NewEngine\<close> over the signature script and the public key script: the size
  and the parse of each, in turn.
\<close>

fun checkScripts :: "('h, 'p) txscript_env \<Rightarrow> 16 word \<Rightarrow> bytes list \<Rightarrow> error option" where
  "checkScripts env scriptVersion [] = None"
| "checkScripts env scriptVersion (scr # rest) =
     (if length scr > MaxScriptSize
      then Some (scriptErrorf ErrScriptTooBig ''script size %d is larger than max allowed size %d''
                   [AInt (int (length scr)), AInt (int MaxScriptSize)])
      else case checkScriptParses env scriptVersion scr of
             Some err \<Rightarrow> Some err
           | None \<Rightarrow> checkScripts env scriptVersion rest)"

text \<open>
  The fields that \<^verbatim>\<open>NewEngine\<close> does not set keep the zero value of their type; the step
  callback is not modelled.
\<close>

definition NewEngine ::
  "txscript_scripts \<Rightarrow> ('h, 'p) txscript_env \<Rightarrow> bytes \<Rightarrow> wire_MsgTx \<Rightarrow> int \<Rightarrow> SigCache option \<Rightarrow>
   'h option \<Rightarrow> int \<Rightarrow> 'p \<Rightarrow> error + ('h, 'p) Engine" where
  "NewEngine lib env scriptPubKey msgTx idx sCache hCache amount prevOuts =
     (let scriptVersion = 0
      in if idx < 0 \<or> idx \<ge> int (length (TxIn msgTx))
         then Inl (scriptErrorf ErrInvalidIndex ''transaction input index %d is negative or >= %d''
                     [AInt idx, AInt (int (length (TxIn msgTx)))])
         else
           let scriptSig = SignatureScript (TxIn msgTx ! nat idx)
           in if length scriptSig = 0 \<and> length scriptPubKey = 0
              then Inl (scriptError ErrEvalFalse ''false stack entry at end of script execution'')
              else if \<not> IsPushOnlyScript lib scriptSig
              then Inl (scriptError ErrNotPushOnly ''signature script is not push only'')
              else
                (case checkScripts env scriptVersion [scriptSig, scriptPubKey] of
                   Some err \<Rightarrow> Inl err
                 | None \<Rightarrow>
                     (let scriptIdx0 = (if length scriptSig = 0 then 1 else 0)
                      in case (if IsWitnessProgram lib scriptPubKey
                               then (if length scriptSig \<noteq> 0
                                     then Inl (scriptError ErrWitnessMalleated
                                            ''native witness program cannot also have a signature script'')
                                     else (case ExtractWitnessProgramInfo lib scriptPubKey of
                                             Inl err \<Rightarrow> Inl err
                                           | Inr (ver, prog) \<Rightarrow> Inr (ver, Some prog)))
                               else (if length (Witness (TxIn msgTx ! nat idx)) \<noteq> 0
                                     then Inl (scriptError ErrWitnessUnexpected
                                            ''non-witness inputs cannot have a witness'')
                                     else Inr (0, None))) of
                           Inl err \<Rightarrow> Inl err
                         | Inr (ver, prog) \<Rightarrow>
                             Inr \<lparr>tx = msgTx,
                                  txIdx = idx,
                                  version = 0,
                                  sigCache = sCache,
                                  hashCache = hCache,
                                  prevOutFetcher = prevOuts,
                                  assetPacket = None,
                                  scripts = [scriptSig, scriptPubKey],
                                  scriptIdx = scriptIdx0,
                                  opcodeIdx = 0,
                                  lastCodeSep = 0,
                                  tokenizer = MakeScriptTokenizer env scriptVersion
                                                ([scriptSig, scriptPubKey] ! scriptIdx0),
                                  dstack = \<lparr>stk = [], verifyMinimalData = True\<rparr>,
                                  astack = \<lparr>stk = [], verifyMinimalData = True\<rparr>,
                                  condStack = [],
                                  witnessVersion = ver,
                                  witnessProgram = prog,
                                  inputAmount = amount,
                                  taprootCtx = None\<rparr>)))"

section \<open>Signature verification\<close>

text \<open>
  Modelled from the spec: the signature cache (section 4.6: a successful verification inserts
  the triple of digest, signature and public key; a lookup hit short-circuits the curve
  check). It is the \<^verbatim>\<open>txscript.SigCache\<close> of the library, here the list of its triples.
\<close>

definition SigCache_Exists :: "SigCache \<Rightarrow> bytes \<Rightarrow> bytes \<Rightarrow> bytes \<Rightarrow> bool" where
  "SigCache_Exists c sigHash sigBytes pkBytes = ((sigHash, sigBytes, pkBytes) \<in> set c)"

definition SigCache_Add :: "SigCache \<Rightarrow> bytes \<Rightarrow> bytes \<Rightarrow> bytes \<Rightarrow> SigCache" where
  "SigCache_Add c sigHash sigBytes pkBytes = (sigHash, sigBytes, pkBytes) # c"

definition chainhash_NewHash :: "bytes \<Rightarrow> bytes option" where
  "chainhash_NewHash newHash = (if length newHash \<noteq> 32 then None else Some newHash)"

definition SignatureSize :: nat where "SignatureSize = 64"
definition SigHashDefault :: byte where "SigHashDefault = 0x00"

record ('h, 'p) taprootSigVerifier =
  sv_pubKey :: PublicKey
  sv_pkBytes :: bytes
  sv_fullSigBytes :: bytes
  sv_sig :: Signature
  sv_hashType :: byte
  sv_sigCache :: "SigCache option"
  sv_hashCache :: "'h option"
  sv_tx :: wire_MsgTx
  sv_inputIndex :: int
  sv_annex :: "bytes option"
  sv_prevOuts :: 'p

definition parseTaprootSigAndPubKey ::
  "('h, 'p) txscript_env \<Rightarrow> bytes \<Rightarrow> bytes \<Rightarrow> error + (PublicKey \<times> Signature \<times> byte)" where
  "parseTaprootSigAndPubKey env pkBytes rawSig =
     (case ParsePubKey env pkBytes of
        Inl err \<Rightarrow> Inl err
      | Inr pubKey \<Rightarrow>
          (if length rawSig = SignatureSize
           then (case ParseSignature env rawSig of
                   Inl err \<Rightarrow> Inl err
                 | Inr sg \<Rightarrow> Inr (pubKey, sg, SigHashDefault))
           else if length rawSig = SignatureSize + 1 \<and> rawSig ! 64 \<noteq> 0
           then (case ParseSignature env (take SignatureSize rawSig) of
                   Inl err \<Rightarrow> Inl err
                 | Inr sg \<Rightarrow> Inr (pubKey, sg, rawSig ! SignatureSize))
           else Inl (scriptErrorf ErrInvalidTaprootSigLen ''invalid sig len: %v''
                       [AInt (int (length rawSig))])))"

definition newTaprootSigVerifier ::
  "('h, 'p) txscript_env \<Rightarrow> bytes \<Rightarrow> bytes \<Rightarrow> wire_MsgTx \<Rightarrow> int \<Rightarrow> 'p \<Rightarrow> SigCache option \<Rightarrow>
   'h option \<Rightarrow> bytes option \<Rightarrow> error + ('h, 'p) taprootSigVerifier" where
  "newTaprootSigVerifier env pkBytes fullSigBytes msgTx inputIndex prevOuts sCache hCache anx =
     (case parseTaprootSigAndPubKey env pkBytes fullSigBytes of
        Inl err \<Rightarrow> Inl err
      | Inr (pubKey, sg, sigHashType) \<Rightarrow>
          Inr \<lparr>sv_pubKey = pubKey, sv_pkBytes = pkBytes, sv_fullSigBytes = fullSigBytes,
               sv_sig = sg, sv_hashType = sigHashType, sv_sigCache = sCache, sv_hashCache = hCache,
               sv_tx = msgTx, sv_inputIndex = inputIndex, sv_annex = anx, sv_prevOuts = prevOuts\<rparr>)"

text \<open>
  \<^verbatim>\<open>verifySig\<close> returns its verdict and the signature cache as it leaves it. The cache key
  is \<^verbatim>\<open>*cacheKey\<close>, a nil pointer when the digest is not 32 bytes long.
\<close>

definition verifySig ::
  "('h, 'p) txscript_env \<Rightarrow> ('h, 'p) taprootSigVerifier \<Rightarrow> bytes \<Rightarrow> (error + bool) \<times> SigCache option" where
  "verifySig env t sigHash =
     (let cacheKey = chainhash_NewHash sigHash
      in case sv_sigCache t of
           Some c \<Rightarrow>
             (case cacheKey of
                None \<Rightarrow> (Inl (GoPanic ''nil pointer dereference''), Some c)
              | Some key \<Rightarrow>
                  if SigCache_Exists c key (sv_fullSigBytes t) (sv_pkBytes t) then (Inr True, Some c)
                  else if SigVerify env (sv_sig t) sigHash (sv_pubKey t)
                  then (Inr True, Some (SigCache_Add c key (sv_fullSigBytes t) (sv_pkBytes t)))
                  else (Inr False, Some c))
         | None \<Rightarrow> (Inr (SigVerify env (sv_sig t) sigHash (sv_pubKey t)), None))"

definition taprootSigVerifier_Verify ::
  "('h, 'p) txscript_env \<Rightarrow> ('h, 'p) taprootSigVerifier \<Rightarrow> (error + bool) \<times> SigCache option" where
  "taprootSigVerifier_Verify env t =
     (case CalcTaprootSignatureHash env (sv_hashCache t) (sv_hashType t) (sv_tx t) (sv_inputIndex t)
             (sv_prevOuts t) of
        Inl err \<Rightarrow> (Inr False, sv_sigCache t)
      | Inr sigHash \<Rightarrow> verifySig env t sigHash)"

record ('h, 'p) baseTapscriptSigVerifier =
  base_verifier :: "('h, 'p) taprootSigVerifier"
  base_vm :: "('h, 'p) Engine"

definition newBaseTapscriptSigVerifier ::
  "('h, 'p) txscript_env \<Rightarrow> bytes \<Rightarrow> bytes \<Rightarrow> ('h, 'p) Engine \<Rightarrow>
   error + ('h, 'p) baseTapscriptSigVerifier" where
  "newBaseTapscriptSigVerifier env pkBytes rawSig vm =
     (if length pkBytes = 0 then Inl (scriptError ErrTaprootPubkeyIsEmpty '''')
      else if length pkBytes = 32
      then (case taprootCtx vm of
              None \<Rightarrow> Inl (GoPanic ''nil pointer dereference'')
            | Some ctx \<Rightarrow>
                (case newTaprootSigVerifier env pkBytes rawSig (tx vm) (txIdx vm) (prevOutFetcher vm)
                        (sigCache vm) (hashCache vm) (annex ctx) of
                   Inl err \<Rightarrow> Inl err
                 | Inr baseTaprootVerifier \<Rightarrow>
                     Inr \<lparr>base_verifier = baseTaprootVerifier, base_vm = vm\<rparr>))
      else Inl (scriptErrorf ErrDiscourageUpgradeablePubKeyType ''pubkey of length %v was used''
                  [AInt (int (length pkBytes))]))"

text \<open>
  The digest that \<^verbatim>\<open>baseTapscriptSigVerifier.Verify\<close> computes and hands to \<^verbatim>\<open>verifySig\<close>:
  the first statement of the method.
\<close>

definition baseTapscript_sigHash ::
  "('h, 'p) txscript_env \<Rightarrow> ('h, 'p) baseTapscriptSigVerifier \<Rightarrow> error + bytes" where
  "baseTapscript_sigHash env b =
     CalcTaprootSignatureHash env (sv_hashCache (base_verifier b)) (sv_hashType (base_verifier b))
       (sv_tx (base_verifier b)) (sv_inputIndex (base_verifier b)) (sv_prevOuts (base_verifier b))"

definition baseTapscriptSigVerifier_Verify ::
  "('h, 'p) txscript_env \<Rightarrow> ('h, 'p) baseTapscriptSigVerifier \<Rightarrow> (error + bool) \<times> SigCache option" where
  "baseTapscriptSigVerifier_Verify env b =
     (case baseTapscript_sigHash env b of
        Inl err \<Rightarrow> (Inr False, sv_sigCache (base_verifier b))
      | Inr sigHash \<Rightarrow> verifySig env (base_verifier b) sigHash)"

text \<open>
  Modelled from the spec: the handler of a signature-checking opcode of the \<^verbatim>\<open>CHECKSIG\<close>
  family (section 3.1: in leaf execution, each opcode that verifies a signature decrements
  the sig-ops budget by 50, and reaching less than zero is an error; section 4.6: every
  signature check decrements the sig-ops budget by 50; sections 4.7 and 7: the opcode pushes
  1 on success and 0 on failure, and does not raise on an invalid signature). The opcode
  handlers of the package are not part of the sources at hand. The handler takes the public
  key and, below it, the signature from the data stack, tallies one signature operation on
  the execution context (\<^verbatim>\<open>tallysigOp\<close>), builds the tapscript verifier and calls its
  \<^verbatim>\<open>Verify\<close>; the signature cache is the one the verifier leaves.
\<close>

definition opcodeCheckSig ::
  "('h, 'p) txscript_env \<Rightarrow> opcode \<Rightarrow> bytes \<Rightarrow> ('h, 'p) Engine \<Rightarrow> error option \<times> ('h, 'p) Engine" where
  "opcodeCheckSig env op data vm =
     (case pop_bytes vm of
        (Inl err, vm1) \<Rightarrow> (Some err, vm1)
      | (Inr pkBytes, vm1) \<Rightarrow>
          (case pop_bytes vm1 of
             (Inl err, vm2) \<Rightarrow> (Some err, vm2)
           | (Inr fullSigBytes, vm2) \<Rightarrow>
               (case taprootCtx vm2 of
                  None \<Rightarrow> (Some (GoPanic ''nil pointer dereference''), vm2)
                | Some ctx \<Rightarrow>
                    (case tallysigOp ctx of
                       (Some err, ctx') \<Rightarrow> (Some err, vm2\<lparr>taprootCtx := Some ctx'\<rparr>)
                     | (None, ctx') \<Rightarrow>
                         (let vm3 = vm2\<lparr>taprootCtx := Some ctx'\<rparr>
                          in case newBaseTapscriptSigVerifier env pkBytes fullSigBytes vm3 of
                               Inl err \<Rightarrow> (Some err, vm3)
                             | Inr b \<Rightarrow>
                                 (case baseTapscriptSigVerifier_Verify env b of
                                    (Inl err, c) \<Rightarrow> (Some err, vm3\<lparr>sigCache := c\<rparr>)
                                  | (Inr valid, c) \<Rightarrow>
                                      (None, push_int (vm3\<lparr>sigCache := c\<rparr>)
                                               (if valid then 1 else 0))))))))"

section \<open>Sample instances\<close>

text \<open>
  A stand-in for the library and a small engine, on which the theorems below are
  instantiated. The stand-in accepts one signature (64 bytes \<open>0x01\<close>) and rejects every
  other; the engine is the one \<^verbatim>\<open>NewEngine\<close> builds for a taproot output with an empty
  signature script, positioned on the public key script. The packet is the one of the
  package's tests (\<^verbatim>\<open>makeTestAssetPacket\<close>).
\<close>

definition sample_env :: "(unit, unit) txscript_env" where
  "sample_env =
     \<lparr>parseScript = (\<lambda>v script. (map (\<lambda>b. (\<lparr>op_value = b, op_name = [], op_length = 1\<rparr>, [])) script, None)),
      opfunc = (\<lambda>op data vm. (None, vm)),
      WitnessSerializeSize = (\<lambda>w. 1 + sum_list (map (\<lambda>e. 1 + int (length e)) w)),
      VerifyTaprootKeySpend = (\<lambda>prog rawSig t i p h c.
         if rawSig = replicate 64 0x01 then None else Some (PlainError ''invalid signature'')),
      ParseControlBlock = (\<lambda>b.
         if length b < 33 then Inl (PlainError ''control block too small'')
         else Inr \<lparr>LeafVersion = hd b AND 0xfe, cb_bytes = b\<rparr>),
      VerifyTaprootLeafCommitment = (\<lambda>cb prog script. None),
      TapHash = (\<lambda>script. replicate 32 0x11),
      CalcTaprootSignatureHash = (\<lambda>h hashType t i p. Inr (replicate 32 hashType)),
      ParsePubKey = (\<lambda>b. Inr (PublicKey b)),
      ParseSignature = (\<lambda>b. Inr (Signature b)),
      SigVerify = (\<lambda>sg h pk. sg = Signature (replicate 64 0x01))\<rparr>"

definition sample_engine :: "(unit, unit) Engine" where
  "sample_engine =
     \<lparr>tx = \<lparr>TxIn = [\<lparr>SignatureScript = [], Witness = [replicate 64 0x01]\<rparr>]\<rparr>,
      txIdx = 0,
      version = 0,
      sigCache = Some [],
      hashCache = Some (),
      prevOutFetcher = (),
      assetPacket = None,
      scripts = [[], [0x51]],
      scriptIdx = 1,
      opcodeIdx = 0,
      lastCodeSep = 0,
      tokenizer = \<lparr>tz_pending = [(\<lparr>op_value = 0x51, op_name = [], op_length = 1\<rparr>, [])],
                   tz_fail = None, tz_op = None, tz_data = [], tz_err = None\<rparr>,
      dstack = \<lparr>stk = [], verifyMinimalData = True\<rparr>,
      astack = \<lparr>stk = [], verifyMinimalData = True\<rparr>,
      condStack = [],
      witnessVersion = 1,
      witnessProgram = Some (replicate 32 0x02),
      inputAmount = 0,
      taprootCtx = None\<rparr>"

definition testAssetTxid :: bytes where
  "testAssetTxid = map word_of_nat [1..<33]"

definition testControlTxid :: bytes where
  "testControlTxid = map word_of_nat [161..<193]"

definition sample_packet :: AssetPacket where
  "sample_packet =
     \<lparr>Groups =
        [\<lparr>group_AssetID = \<lparr>Txid = testAssetTxid, Gidx = 0\<rparr>,
          Control = Some \<lparr>Txid = testControlTxid, Gidx = 1\<rparr>,
          MetadataHash = replicate 32 0xde,
          Inputs = [\<lparr>in_Type = 0x01, in_InputIndex = 0, in_Txid = replicate 32 0,
                      in_OutputIndex = 0, in_Amount = 1000\<rparr>,
                    \<lparr>in_Type = 0x02, in_InputIndex = 0, in_Txid = replicate 32 0xf1,
                      in_OutputIndex = 2, in_Amount = 500\<rparr>],
          Outputs = [\<lparr>out_Type = 0x01, out_OutputIndex = 0, out_Amount = 800\<rparr>,
                     \<lparr>out_Type = 0x02, out_OutputIndex = 1, out_Amount = 700\<rparr>]\<rparr>,
         \<lparr>group_AssetID = \<lparr>Txid = testControlTxid, Gidx = 1\<rparr>,
          Control = None,
          MetadataHash = replicate 32 0,
          Inputs = [\<lparr>in_Type = 0x01, in_InputIndex = 1, in_Txid = replicate 32 0,
                      in_OutputIndex = 0, in_Amount = 200\<rparr>],
          Outputs = [\<lparr>out_Type = 0x01, out_OutputIndex = 2, out_Amount = 200\<rparr>]\<rparr>],
      InputAssets = Map.empty,
      OutputAssets = Map.empty\<rparr>"

text \<open>
  A packet whose only group has two inputs, of amounts \<open>2^64 - 1\<close> and \<open>1\<close>.
\<close>

definition overflow_packet :: AssetPacket where
  "overflow_packet =
     \<lparr>Groups =
        [\<lparr>group_AssetID = \<lparr>Txid = testAssetTxid, Gidx = 0\<rparr>,
          Control = None,
          MetadataHash = replicate 32 0,
          Inputs = [\<lparr>in_Type = 0x01, in_InputIndex = 0, in_Txid = replicate 32 0,
                      in_OutputIndex = 0, in_Amount = 0xffffffffffffffff\<rparr>,
                    \<lparr>in_Type = 0x01, in_InputIndex = 1, in_Txid = replicate 32 0,
                      in_OutputIndex = 0, in_Amount = 1\<rparr>],
          Outputs = []\<rparr>],
      InputAssets = Map.empty,
      OutputAssets = Map.empty\<rparr>"

definition with_stack :: "('h, 'p) Engine \<Rightarrow> bytes list \<Rightarrow> ('h, 'p) Engine" where
  "with_stack vm data = vm\<lparr>dstack := (dstack vm)\<lparr>stk := data\<rparr>\<rparr>"



definition leaf_engine :: "(unit, unit) Engine" where
  "leaf_engine =
     sample_engine\<lparr>scripts := [[], [0x51], []],
        dstack := \<lparr>stk = [[0x01]], verifyMinimalData = True\<rparr>,
        taprootCtx := Some \<lparr>annex = None, codeSepPos = 0xffffffff, tapLeafHash = replicate 32 0x11,
                             sigOpsBudget = 88, mustSucceed = False\<rparr>\<rparr>"

text \<open>
  The engines that a run reaches from \<open>vm0\<close>: each by one more \<open>Step\<close> that returns no
  error.
\<close>

inductive steps ::
  "('h, 'p) txscript_env \<Rightarrow> ('h, 'p) Engine \<Rightarrow> ('h, 'p) Engine \<Rightarrow> bool"
  for env :: "('h, 'p) txscript_env" and vm0 :: "('h, 'p) Engine" where
    steps_start: "steps env vm0 vm0"
  | steps_next: "steps env vm0 vm \<Longrightarrow> Step env vm = (d, None, vm') \<Longrightarrow> steps env vm0 vm'"

text \<open>
  The engine that \<open>Step\<close> leaves when \<open>sample_engine\<close> executes its last opcode and the
  key spend of its witness verifies.
\<close>

definition keyspend_engine :: "(unit, unit) Engine" where
  "keyspend_engine =
     sample_engine\<lparr>scriptIdx := 2, opcodeIdx := 0,
        tokenizer := \<lparr>tz_pending = [], tz_fail = None,
                       tz_op = Some \<lparr>op_value = 0x51, op_name = [], op_length = 1\<rparr>,
                       tz_data = [], tz_err = None\<rparr>,
        taprootCtx := Some \<lparr>annex = None, codeSepPos = 0xffffffff, tapLeafHash = replicate 32 0,
                             sigOpsBudget = 116, mustSucceed = True\<rparr>\<rparr>"

text \<open>
  The verdict of a tapscript signature check on a public key and a signature taken from
  the stack: the verifier is built from the engine and its \<^verbatim>\<open>Verify\<close> is called.
\<close>

definition verifyTapscriptSig ::
  "('h, 'p) txscript_env \<Rightarrow> bytes \<Rightarrow> bytes \<Rightarrow> ('h, 'p) Engine \<Rightarrow> error + bool" where
  "verifyTapscriptSig env pkBytes rawSig vm =
     (case newBaseTapscriptSigVerifier env pkBytes rawSig vm of
        Inl err \<Rightarrow> Inl err
      | Inr b \<Rightarrow> fst (baseTapscriptSigVerifier_Verify env b))"

text \<open>
  A signature cache is sound when each of its triples is a digest, a signature and a public
  key such that the signature parses, and verifies for the key on the digest.
\<close>

definition cache_sound :: "('h, 'p) txscript_env \<Rightarrow> SigCache \<Rightarrow> bool" where
  "cache_sound env c =
     list_all (\<lambda>(sigHash, sigBytes, pkBytes).
        case parseTaprootSigAndPubKey env pkBytes sigBytes of
          Inl err \<Rightarrow> False
        | Inr (pubKey, sg, hashType) \<Rightarrow> SigVerify env sg sigHash pubKey) c"

definition some_key :: bytes where "some_key = replicate 32 0x02"


text \<open>
  The engines that a run passes through from \<open>vm0\<close> before it ends: each by one more
  \<open>Step\<close> that returns neither an error nor that the run is done. These are the iterations
  of the loop of \<^verbatim>\<open>Execute\<close> that go on to the next one.
\<close>

inductive unfinished_steps ::
  "('h, 'p) txscript_env \<Rightarrow> ('h, 'p) Engine \<Rightarrow> ('h, 'p) Engine \<Rightarrow> bool"
  for env :: "('h, 'p) txscript_env" and vm0 :: "('h, 'p) Engine" where
    unfinished_start: "unfinished_steps env vm0 vm0"
  | unfinished_next:
      "unfinished_steps env vm0 vm \<Longrightarrow> Step env vm = (False, None, vm') \<Longrightarrow> unfinished_steps env vm0 vm'"

text \<open>
  Two engines that differ in their signature cache and their sighash cache only, as two
  runs on the same script, transaction, input, previous outputs and asset packet do. The
  caches are memos: each signature cache holds only triples that verify (these are the
  triples that a successful verification inserts), and the library computes the same
  digests from either sighash cache.
\<close>

definition memo_related ::
  "('h, 'p) txscript_env \<Rightarrow> ('h, 'p) Engine \<Rightarrow> ('h, 'p) Engine \<Rightarrow> bool" where
  "memo_related env a b =
     ((case sigCache a of None \<Rightarrow> False | Some c \<Rightarrow> cache_sound env c) \<and>
      (case sigCache b of None \<Rightarrow> False | Some c \<Rightarrow> cache_sound env c) \<and>
      CalcTaprootSignatureHash env (hashCache a) = CalcTaprootSignatureHash env (hashCache b) \<and>
      b = a\<lparr>sigCache := sigCache b, hashCache := hashCache b\<rparr>)"

text \<open>
  A second stand-in, for whole runs on a taproot output. Its script parser knows the direct
  data pushes (opcodes 1 to 75, followed by that many bytes) and takes every other byte for
  an opcode without data. Its opcode table has \<^verbatim>\<open>OP_CHECKSIG\<close> (the handler above),
  \<^verbatim>\<open>OP_2DUP\<close>, \<^verbatim>\<open>OP_DROP\<close>, \<^verbatim>\<open>OP_1\<close> and the data pushes; every other opcode does
  nothing. The library accepts one signature (64 bytes \<open>0x01\<close>) and rejects every other, and
  takes a script of 34 bytes that starts with \<^verbatim>\<open>OP_1 OP_DATA_32\<close> for a witness program of
  version 1. The sighash cache of this stand-in is a number, which names the cache.
\<close>

definition OP_DATA_32 :: byte where "OP_DATA_32 = 0x20"
definition OP_2DUP :: byte where "OP_2DUP = 0x6e"
definition OP_DROP :: byte where "OP_DROP = 0x75"
definition OP_CHECKSIG :: byte where "OP_CHECKSIG = 0xac"

definition sample_op :: "byte \<Rightarrow> opcode" where
  "sample_op b = \<lparr>op_value = b, op_name = [], op_length = (if 1 \<le> b \<and> b \<le> 75 then 1 + uint b else 1)\<rparr>"

function sample_parse :: "bytes \<Rightarrow> (opcode \<times> bytes) list \<times> error option" where
  "sample_parse [] = ([], None)"
| "sample_parse (b # bs) =
     (if 1 \<le> b \<and> b \<le> 75
      then (if length bs < unat b then ([], Some (PlainError ''malformed push''))
            else (case sample_parse (drop (unat b) bs) of
                    (ops, fail) \<Rightarrow> ((sample_op b, take (unat b) bs) # ops, fail)))
      else (case sample_parse bs of
              (ops, fail) \<Rightarrow> ((sample_op b, []) # ops, fail)))"
  by pat_completeness auto
termination
  by (relation "measure length") auto

definition taproot_lib :: "(nat, unit) txscript_env" where
  "taproot_lib =
     \<lparr>parseScript = (\<lambda>v script. sample_parse script),
      opfunc = (\<lambda>op data vm. (None, vm)),
      WitnessSerializeSize = (\<lambda>w. 1 + sum_list (map (\<lambda>e. 1 + int (length e)) w)),
      VerifyTaprootKeySpend = (\<lambda>prog rawSig t i p h c.
         if rawSig = replicate 64 0x01 then None else Some (PlainError ''invalid signature'')),
      ParseControlBlock = (\<lambda>b.
         if length b < 33 then Inl (PlainError ''control block too small'')
         else Inr \<lparr>LeafVersion = hd b AND 0xfe, cb_bytes = b\<rparr>),
      VerifyTaprootLeafCommitment = (\<lambda>cb prog script. None),
      TapHash = (\<lambda>script. replicate 32 0x11),
      CalcTaprootSignatureHash = (\<lambda>h hashType t i p. Inr (replicate 32 hashType)),
      ParsePubKey = (\<lambda>b. Inr (PublicKey b)),
      ParseSignature = (\<lambda>b. Inr (Signature b)),
      SigVerify = (\<lambda>sg h pk. sg = Signature (replicate 64 0x01))\<rparr>"

definition sample_2dup :: "('h, 'p) Engine \<Rightarrow> error option \<times> ('h, 'p) Engine" where
  "sample_2dup vm =
     (let s = stk (dstack vm)
      in if length s < 2
         then (Some (scriptErrorf ErrInvalidStackOperation ''index %d is invalid for stack size %d''
                       [AInt 1, AInt (int (length s))]), vm)
         else (None, push_bytes (push_bytes vm (s ! (length s - 2))) (s ! (length s - 1))))"

definition sample_drop :: "('h, 'p) Engine \<Rightarrow> error option \<times> ('h, 'p) Engine" where
  "sample_drop vm = (case DropN (dstack vm) 1 of (err, s') \<Rightarrow> (err, vm\<lparr>dstack := s'\<rparr>))"

definition taproot_opfunc ::
  "opcode \<Rightarrow> bytes \<Rightarrow> (nat, unit) Engine \<Rightarrow> error option \<times> (nat, unit) Engine" where
  "taproot_opfunc op data vm =
     (if op_value op = OP_CHECKSIG then opcodeCheckSig taproot_lib op data vm
      else if op_value op = OP_2DUP then sample_2dup vm
      else if op_value op = OP_DROP then sample_drop vm
      else if op_value op = OP_1 then (None, push_int vm 1)
      else if op_value op \<le> OP_PUSHDATA4 then (None, push_bytes vm data)
      else (None, vm))"

definition taproot_env :: "(nat, unit) txscript_env" where
  "taproot_env = taproot_lib\<lparr>opfunc := taproot_opfunc\<rparr>"

definition taproot_scripts :: txscript_scripts where
  "taproot_scripts =
     \<lparr>IsPushOnlyScript = (\<lambda>s. list_all (\<lambda>b. b \<le> 0x60) s),
      IsWitnessProgram = (\<lambda>s. length s = 34 \<and> take 2 s = [0x51, 0x20]),
      ExtractWitnessProgramInfo = (\<lambda>s. Inr (1, drop 2 s))\<rparr>"

text \<open>
  A taproot output: the public key script \<^verbatim>\<open>OP_1 OP_DATA_32\<close> with a program of 32 bytes.
  \<open>taproot_start msgTx\<close> is the engine that \<^verbatim>\<open>NewEngine\<close> builds for it on the first input
  of \<open>msgTx\<close>, \<open>taproot_pushed msgTx\<close> the engine after the step that executes \<^verbatim>\<open>OP_1\<close>.
\<close>

definition p2tr_script :: bytes where
  "p2tr_script = 0x51 # 0x20 # replicate 32 0x02"

definition taproot_start :: "wire_MsgTx \<Rightarrow> (nat, unit) Engine" where
  "taproot_start msgTx =
     \<lparr>tx = msgTx,
      txIdx = 0,
      version = 0,
      sigCache = Some [],
      hashCache = Some 1,
      prevOutFetcher = (),
      assetPacket = None,
      scripts = [[], p2tr_script],
      scriptIdx = 1,
      opcodeIdx = 0,
      lastCodeSep = 0,
      tokenizer = \<lparr>tz_pending = [(sample_op 0x51, []), (sample_op 0x20, replicate 32 0x02)],
                   tz_fail = None, tz_op = None, tz_data = [], tz_err = None\<rparr>,
      dstack = \<lparr>stk = [], verifyMinimalData = True\<rparr>,
      astack = \<lparr>stk = [], verifyMinimalData = True\<rparr>,
      condStack = [],
      witnessVersion = 1,
      witnessProgram = Some (replicate 32 0x02),
      inputAmount = 0,
      taprootCtx = None\<rparr>"

definition taproot_pushed :: "wire_MsgTx \<Rightarrow> (nat, unit) Engine" where
  "taproot_pushed msgTx =
     (taproot_start msgTx)
       \<lparr>opcodeIdx := 1,
        tokenizer := \<lparr>tz_pending = [(sample_op 0x20, replicate 32 0x02)],
                       tz_fail = None, tz_op = Some (sample_op 0x51), tz_data = [], tz_err = None\<rparr>,
        dstack := \<lparr>stk = [[0x01]], verifyMinimalData = True\<rparr>\<rparr>"

text \<open>
  A key spend of the output: the witness is one signature that the stand-in accepts.
  \<open>keyspend_final\<close> is the engine that the run ends on.
\<close>

definition keyspend_tx :: wire_MsgTx where
  "keyspend_tx = \<lparr>TxIn = [\<lparr>SignatureScript = [], Witness = [replicate 64 0x01]\<rparr>]\<rparr>"

definition keyspend_final :: "(nat, unit) Engine" where
  "keyspend_final =
     (taproot_start keyspend_tx)
       \<lparr>scriptIdx := 2,
        opcodeIdx := 0,
        tokenizer := \<lparr>tz_pending = [], tz_fail = None, tz_op = Some (sample_op 0x20),
                       tz_data = replicate 32 0x02, tz_err = None\<rparr>,
        dstack := \<lparr>stk = [[0x01], replicate 32 0x02], verifyMinimalData = True\<rparr>,
        taprootCtx := Some \<lparr>annex = None, codeSepPos = 0xffffffff, tapLeafHash = replicate 32 0,
                             sigOpsBudget = 116, mustSucceed = True\<rparr>\<rparr>"

text \<open>
  A script-path spend of the output. The leaf script is four times
  \<^verbatim>\<open>OP_2DUP OP_CHECKSIG OP_DROP\<close>, the witness a signature (which the stand-in rejects), a
  public key, the leaf script and a control block of 33 bytes; its serialized size is 146.
  \<open>leaf_state b pending cur n st\<close> is the engine of the run in the leaf script with the
  sig-ops budget \<open>b\<close>, the opcodes \<open>pending\<close> still to come after the opcode \<open>cur\<close>, the
  opcode index \<open>n\<close> and the data stack \<open>st\<close>.
\<close>

definition checksig_script :: bytes where
  "checksig_script = [0x6e, 0xac, 0x75, 0x6e, 0xac, 0x75, 0x6e, 0xac, 0x75, 0x6e, 0xac, 0x75]"

definition checksig_tx :: wire_MsgTx where
  "checksig_tx =
     \<lparr>TxIn = [\<lparr>SignatureScript = [],
               Witness = [replicate 64 0x03, replicate 32 0x02, checksig_script,
                          0xc0 # replicate 32 0x02]\<rparr>]\<rparr>"

definition leaf_state ::
  "32 word \<Rightarrow> (opcode \<times> bytes) list \<Rightarrow> opcode option \<Rightarrow> nat \<Rightarrow> bytes list \<Rightarrow> (nat, unit) Engine" where
  "leaf_state b pending cur n st =
     (taproot_start checksig_tx)
       \<lparr>scripts := [[], p2tr_script, checksig_script],
        scriptIdx := 2,
        opcodeIdx := n,
        tokenizer := \<lparr>tz_pending = pending, tz_fail = None, tz_op = cur, tz_data = [],
                       tz_err = None\<rparr>,
        dstack := \<lparr>stk = st, verifyMinimalData = True\<rparr>,
        taprootCtx := Some \<lparr>annex = None, codeSepPos = 0xffffffff, tapLeafHash = replicate 32 0x11,
                             sigOpsBudget = b, mustSucceed = False\<rparr>\<rparr>"

section \<open>The sig-ops budget\<close>









section \<open>Witnesses of one element\<close>

text \<open>
  Claim C10. A witness of exactly one element is never annexed, whatever its first byte:
  annex detection needs at least two elements. \<open>verifyWitnessProgram\<close> on such a witness
  leaves the annex of the execution context unset and hands the whole element to key-spend
  verification, whose verdict it returns.
\<close>

theorem single_element_witness_not_annexed:
  assumes "isWitnessVersionActive vm TaprootWitnessVersion"
    and "witnessProgram vm = Some prog"
    and "length prog = payToTaprootDataSize"
  shows "\<not> isAnnexedWitness [e] \<and>
         verifyWitnessProgram env vm [e] =
           (let vm1 = vm\<lparr>taprootCtx :=
                          Some (newTaprootExecutionCtx (word_of_int (WitnessSerializeSize env [e])))\<rparr>
            in case VerifyTaprootKeySpend env prog e (tx vm) (txIdx vm) (prevOutFetcher vm)
                      (hashCache vm) (sigCache vm) of
                 Some err \<Rightarrow> (Some err, vm1)
               | None \<Rightarrow> (None, update_ctx (\<lambda>c. c\<lparr>mustSucceed := True\<rparr>) vm1)) \<and>
         map_option annex (taprootCtx (snd (verifyWitnessProgram env vm [e]))) = Some None"
  using assms
  by (simp add: isAnnexedWitness_def verifyWitnessProgram_def witnessProgramLen_def Let_def
        update_ctx_def newTaprootExecutionCtx_def split: option.splits)

theorem single_element_witness_not_annexed_witness:
  "isWitnessVersionActive sample_engine TaprootWitnessVersion \<and>
   witnessProgram sample_engine = Some (replicate 32 0x02) \<and>
   length (replicate 32 (0x02 :: byte)) = payToTaprootDataSize \<and>
   \<not> isAnnexedWitness [[0x50, 0x01]] \<and>
   fst (verifyWitnessProgram sample_env sample_engine [[0x50, 0x01]]) =
     VerifyTaprootKeySpend sample_env (replicate 32 0x02) [0x50, 0x01] (tx sample_engine)
       (txIdx sample_engine) (prevOutFetcher sample_engine) (hashCache sample_engine)
       (sigCache sample_engine) \<and>
   map_option annex (taprootCtx (snd (verifyWitnessProgram sample_env sample_engine [[0x50, 0x01]])))
     = Some None"
proof -
  have h1: "isWitnessVersionActive sample_engine TaprootWitnessVersion"
    by (simp add: isWitnessVersionActive_def sample_engine_def TaprootWitnessVersion_def)
  have h2: "witnessProgram sample_engine = Some (replicate 32 0x02)"
    by (simp add: sample_engine_def)
  have h3: "length (replicate 32 (0x02 :: byte)) = payToTaprootDataSize"
    by (simp add: payToTaprootDataSize_def)
  note T = single_element_witness_not_annexed [OF h1 h2 h3, of "[0x50, 0x01]" sample_env]
  from T have t1: "\<not> isAnnexedWitness [[0x50, 0x01]]" by (rule conjunct1)
  from T have t3: "map_option annex
      (taprootCtx (snd (verifyWitnessProgram sample_env sample_engine [[0x50, 0x01]]))) = Some None"
    by (rule conjunct2 [THEN conjunct2])
  from T [THEN conjunct2, THEN conjunct1]
  have t2: "fst (verifyWitnessProgram sample_env sample_engine [[0x50, 0x01]]) =
     VerifyTaprootKeySpend sample_env (replicate 32 0x02) [0x50, 0x01] (tx sample_engine)
       (txIdx sample_engine) (prevOutFetcher sample_engine) (hashCache sample_engine)
       (sigCache sample_engine)"
    by (simp add: Let_def split: option.splits)
  show ?thesis by (intro conjI) (rule h1 h2 h3 t1 t2 t3)+
qed

section \<open>Asset opcodes without a packet\<close>

text \<open>
  Claim C3, as the code has it. With no asset packet attached, every opcode of the asset
  family fails before it touches the stack: the engine is returned unchanged. The error
  is a script error of code \<^verbatim>\<open>ErrInvalidIndex\<close> with the description
  \<^verbatim>\<open>asset packet not set\<close>.
\<close>

theorem asset_opcode_without_packet:
  "assetPacket vm = None \<Longrightarrow>
   asset_opfunc opc vm = (Some (scriptError ErrInvalidIndex ''asset packet not set''), vm)"
  by (cases opc)
     (simp_all add: checkAssetPacket_def opcodeInspectNumAssetGroups_def
        opcodeInspectAssetGroupAssetID_def opcodeInspectAssetGroupCtrl_def
        opcodeFindAssetGroupByAssetID_def opcodeInspectAssetGroupMetadataHash_def
        opcodeInspectAssetGroupNum_def opcodeInspectAssetGroup_def opcodeInspectAssetGroupSum_def
        opcodeInspectOutAssetCount_def opcodeInspectOutAssetAt_def opcodeInspectOutAssetLookup_def
        opcodeInspectInAssetCount_def opcodeInspectInAssetAt_def opcodeInspectInAssetLookup_def
        opcodeInspectGroupIntentOutCount_def opcodeInspectGroupIntentOut_def
        opcodeInspectGroupIntentInCount_def opcodeInspectGroupIntentIn_def)

theorem asset_opcode_without_packet_witness:
  "assetPacket (with_stack sample_engine [[], []]) = None \<and>
   asset_opfunc OP_INSPECTASSETGROUPSUM (with_stack sample_engine [[], []]) =
     (Some (scriptError ErrInvalidIndex ''asset packet not set''), with_stack sample_engine [[], []])"
proof -
  have h: "assetPacket (with_stack sample_engine [[], []]) = None"
    by (simp add: with_stack_def sample_engine_def)
  from h asset_opcode_without_packet [OF h, of OP_INSPECTASSETGROUPSUM] show ?thesis by simp
qed

text \<open>
  The claim names the error kind \<^verbatim>\<open>AssetPacketMissing\<close>, a kind of its own beside
  \<^verbatim>\<open>AssetIndexOutOfRange\<close>. The engine has no such code: a missing packet and a group
  index out of range raise the same code, \<^verbatim>\<open>ErrInvalidIndex\<close>.
\<close>

theorem missing_packet_error_code_counterexample:
  "map_option errorCode (fst (opcodeInspectNumAssetGroups sample_engine)) = Some (Some ErrInvalidIndex) \<and>
   map_option errorCode
     (fst (opcodeInspectAssetGroupAssetID
             (with_stack (SetAssetPacket sample_engine (Some sample_packet)) [[0x05]])))
     = Some (Some ErrInvalidIndex)"
  by (simp add: opcodeInspectNumAssetGroups_def opcodeInspectAssetGroupAssetID_def
        checkAssetPacket_def sample_engine_def with_stack_def SetAssetPacket_def scriptError_def
        pop_int_def PopInt_def PopByteArray_def MakeScriptNum_def checkMinimalDataEncoding_def
        maxScriptNumLen_def checkGroupIndex_def sample_packet_def)

section \<open>The sum of a group's amounts\<close>

text \<open>
  Claim C1 on the packet whose group 0 has the input amounts \<open>2^64 - 1\<close> and \<open>1\<close>, with
  the operands \<open>K = 0\<close> and \<open>source = 0\<close> on the stack: \<^verbatim>\<open>OP_INSPECTASSETGROUPSUM\<close>
  returns no error and pushes the eight bytes of the wrapped sum, zero.
\<close>

theorem group_sum_wraps_around:
  "opcodeInspectAssetGroupSum
     (with_stack (SetAssetPacket sample_engine (Some overflow_packet)) [[], []]) =
   (None,
    with_stack (SetAssetPacket sample_engine (Some overflow_packet)) [[0, 0, 0, 0, 0, 0, 0, 0]])"
  by (simp add: opcodeInspectAssetGroupSum_def with_stack_def SetAssetPacket_def sample_engine_def
        overflow_packet_def checkAssetPacket_def pop_int_def PopInt_def PopByteArray_def
        MakeScriptNum_def checkMinimalDataEncoding_def maxScriptNumLen_def checkGroupIndex_def
        packet_def inSum_def pushLE64_def push_bytes_def PushByteArray_def le64_def upt_rec)

section \<open>Script numbers on the stack, and finding a group by its asset id\<close>

lemma le_value_magnitude: "le_value (magnitude_bytes n) = int n"
proof (induction n rule: magnitude_bytes.induct)
  case (1 n)
  show ?case
  proof (cases "n = 0")
    case True
    then show ?thesis by (simp add: magnitude_bytes.simps)
  next
    case False
    have u: "uint (word_of_nat (n mod 256) :: byte) = int (n mod 256)"
      by (simp add: uint_nat unat_of_nat)
    from False 1 have "le_value (magnitude_bytes (n div 256)) = int (n div 256)" by simp
    with False u show ?thesis
      by (subst magnitude_bytes.simps) (simp add: zmod_int zdiv_int)
  qed
qed

lemma le_value_append: "le_value (xs @ [b]) = le_value xs + uint b * 256 ^ length xs"
  by (induction xs) (simp_all add: algebra_simps)

lemma magnitude_nonempty: "0 < n \<Longrightarrow> magnitude_bytes n \<noteq> []"
  by (subst magnitude_bytes.simps) simp

lemma magnitude_last: "0 < n \<Longrightarrow> last (magnitude_bytes n) \<noteq> 0"
proof (induction n rule: magnitude_bytes.induct)
  case (1 n)
  show ?case
  proof (cases "n div 256 = 0")
    case True
    with 1(2) have "n < 256" and "magnitude_bytes n = [word_of_nat n]"
      by (auto simp: magnitude_bytes.simps [of n] magnitude_bytes.simps [of 0] div_eq_0_iff)
    moreover have "(word_of_nat n :: byte) \<noteq> 0" using \<open>n < 256\<close> 1(2)
      by (simp add: word_of_nat_eq_0_iff) (auto dest: dvd_imp_le)
    ultimately show ?thesis by simp
  next
    case False
    then have "0 < n div 256" by simp
    with 1 have "last (magnitude_bytes (n div 256)) \<noteq> 0" by simp
    moreover have "magnitude_bytes (n div 256) \<noteq> []" using \<open>0 < n div 256\<close> by (rule magnitude_nonempty)
    ultimately show ?thesis using 1(2)
      by (subst magnitude_bytes.simps) simp
  qed
qed

lemma magnitude_length: "n < 256 ^ k \<Longrightarrow> length (magnitude_bytes n) \<le> k"
proof (induction n arbitrary: k rule: magnitude_bytes.induct)
  case (1 n)
  show ?case
  proof (cases "n = 0")
    case True
    then show ?thesis by (simp add: magnitude_bytes.simps)
  next
    case False
    with 1(2) obtain k' where k: "k = Suc k'" by (cases k) auto
    with 1(2) have "n div 256 < 256 ^ k'" by (simp add: less_mult_imp_div_less)
    with 1(1) False have "length (magnitude_bytes (n div 256)) \<le> k'" by simp
    with False k show ?thesis by (subst magnitude_bytes.simps) simp
  qed
qed

lemma and7f: "(x :: byte) AND 0x80 = 0 \<Longrightarrow> x AND 0x7f = x"
proof -
  assume h: "x AND 0x80 = 0"
  have m: "(0x7f OR 0x80 :: byte) = - 1" by simp
  have "x = x AND (0x7f OR 0x80)" by (simp only: m) simp
  also have "\<dots> = (x AND 0x7f) OR (x AND 0x80)" by (rule bit.conj_disj_distrib)
  finally show ?thesis using h by simp
qed
lemma hibit: "(x :: byte) AND 0x80 \<noteq> 0 \<Longrightarrow> 128 \<le> uint x"
proof -
  assume h: "x AND 0x80 \<noteq> 0"
  have "bit x 7" using h and_exp_eq_0_iff_not_bit [of x 7] by simp
  then have "bit (uint x) 7" by (simp add: bit_uint_iff)
  then have o: "odd (uint x div 2 ^ 7)" by (simp add: bit_iff_odd)
  show ?thesis
  proof (rule ccontr)
    assume "\<not> 128 \<le> uint x"
    then have "uint x div 2 ^ 7 = 0" by simp
    with o show False by simp
  qed
qed

lemma le_value_nonneg: "0 \<le> le_value xs"
  by (induction xs) simp_all

lemma scriptNum_roundtrip:
  assumes "0 \<le> n" "n < 2 ^ 31"
  shows "MakeScriptNum (scriptNum_Bytes n) m maxScriptNumLen = Inr n"
proof (cases "n = 0")
  case True
  then show ?thesis
    by (simp add: scriptNum_Bytes_def MakeScriptNum_def checkMinimalDataEncoding_def)
next
  case False
  define mag where "mag = magnitude_bytes (nat n)"
  from False assms have pos: "0 < nat n" by simp
  have ne: "mag \<noteq> []" unfolding mag_def using pos by (rule magnitude_nonempty)
  have l0: "last mag \<noteq> 0" unfolding mag_def using pos by (rule magnitude_last)
  have val: "le_value mag = n" unfolding mag_def using assms by (simp add: le_value_magnitude)
  have "nat n < 256 ^ 4" using assms by simp
  then have len4: "length mag \<le> 4" unfolding mag_def by (rule magnitude_length)
  have split: "le_value mag = le_value (butlast mag) + uint (last mag) * 256 ^ (length mag - 1)"
    using le_value_append [of "butlast mag" "last mag"] ne by simp
  have enc: "scriptNum_Bytes n = (if last mag AND 0x80 \<noteq> 0 then mag @ [0] else mag)"
    using False assms by (simp add: scriptNum_Bytes_def mag_def Let_def)
  show ?thesis
  proof (cases "last mag AND 0x80 = 0")
    case True
    then have "last mag AND 0x7f = last mag" by (rule and7f)
    with True l0 ne len4 val show ?thesis
      by (simp add: enc MakeScriptNum_def checkMinimalDataEncoding_def maxScriptNumLen_def)
  next
    case hi: False
    then have "128 \<le> uint (last mag)" by (rule hibit)
    then have "128 * 256 ^ (length mag - 1) \<le> uint (last mag) * (256 ^ (length mag - 1) :: int)"
      by (rule mult_right_mono) simp
    with split val le_value_nonneg [of "butlast mag"]
    have big: "128 * 256 ^ (length mag - 1) \<le> n" by linarith
    have len3: "length mag \<le> 3"
    proof (rule ccontr)
      assume "\<not> length mag \<le> 3"
      with len4 have "length mag = 4" by simp
      with big assms show False by simp
    qed
    have nth: "(mag @ [0]) ! (length mag - Suc 0) = last mag"
      using ne by (simp add: nth_append last_conv_nth)
    from hi ne len3 val nth show ?thesis
      by (simp add: enc MakeScriptNum_def checkMinimalDataEncoding_def maxScriptNumLen_def
            le_value_append)
  qed
qed

lemma PopInt_PushInt:
  "0 \<le> n \<Longrightarrow> n < 2 ^ 31 \<Longrightarrow> PopInt (PushInt s n) = (Inr n, s)"
  by (simp add: PopInt_def PushInt_def PushByteArray_def PopByteArray_def scriptNum_roundtrip)

lemma PopByteArray_PushByteArray: "PopByteArray (PushByteArray s so) = (Inr so, s)"
  by (simp add: PushByteArray_def PopByteArray_def)

lemma pop_int_push_int:
  "0 \<le> n \<Longrightarrow> n < 2 ^ 31 \<Longrightarrow> pop_int (push_int vm n) = (Inr n, vm)"
  by (simp add: pop_int_def push_int_def PopInt_PushInt)

lemma pop_bytes_push_bytes: "pop_bytes (push_bytes vm so) = (Inr so, vm)"
  by (simp add: pop_bytes_def push_bytes_def PopByteArray_PushByteArray)

lemma popAssetID_pushAssetID:
  assumes "length (Txid a) = 32"
  shows "popAssetID (pushAssetID vm a) = (Inr a, vm)"
proof -
  have b: "0 \<le> uint (Gidx a)" "uint (Gidx a) < 2 ^ 31"
    using uint_lt2p [of "Gidx a"] by simp_all
  show ?thesis
    using assms
    by (simp add: popAssetID_def pushAssetID_def pop_int_push_int [OF b] pop_bytes_push_bytes)
qed

lemma findGroup_first:
  assumes "k < length gs"
    and "Txid (group_AssetID (gs ! k)) = Txid a \<and> Gidx (group_AssetID (gs ! k)) = Gidx a"
    and "\<forall>j < k. \<not> (Txid (group_AssetID (gs ! j)) = Txid a \<and> Gidx (group_AssetID (gs ! j)) = Gidx a)"
  shows "findGroup gs a i = Some (i + int k)"
  using assms
proof (induction gs arbitrary: k i)
  case Nil
  then show ?case by simp
next
  case (Cons g gs)
  show ?case
  proof (cases k)
    case 0
    with Cons.prems show ?thesis by simp
  next
    case (Suc k')
    from Cons.prems(3) Suc have no0: "\<not> (Txid (group_AssetID g) = Txid a \<and> Gidx (group_AssetID g) = Gidx a)"
      by auto
    have "findGroup gs a (i + 1) = Some (i + 1 + int k')"
    proof (rule Cons.IH)
      show "k' < length gs" using Cons.prems(1) Suc by simp
      show "Txid (group_AssetID (gs ! k')) = Txid a \<and> Gidx (group_AssetID (gs ! k')) = Gidx a"
        using Cons.prems(2) Suc by simp
      show "\<forall>j<k'. \<not> (Txid (group_AssetID (gs ! j)) = Txid a \<and> Gidx (group_AssetID (gs ! j)) = Gidx a)"
        using Cons.prems(3) Suc by auto
    qed
    with no0 Suc show ?thesis by simp
  qed
qed

lemma findGroup_none:
  "\<forall>g \<in> set gs. \<not> (Txid (group_AssetID g) = Txid a \<and> Gidx (group_AssetID g) = Gidx a) \<Longrightarrow>
   findGroup gs a i = None"
  by (induction gs arbitrary: i) auto

lemma magnitude_bytes_one: "magnitude_bytes (Suc 0) = [1]"
  by (subst magnitude_bytes.simps) (simp add: magnitude_bytes.simps [of 0])

lemma pop_int_assetPacket: "pop_int vm = (r, vm') \<Longrightarrow> assetPacket vm' = assetPacket vm"
  by (auto simp: pop_int_def split: prod.splits)

lemma AssetID_eq_iff: "(a = b) = (Txid a = Txid b \<and> Gidx a = Gidx b)" for a b :: AssetID
  by (cases a, cases b) simp

text \<open>
  Claim C8. Let group \<open>K\<close> be in range, with an asset id that no other group of the
  packet has, and let \<open>K\<close> be the operand on top of the stack, the engine below it being
  \<open>vm0\<close>. Then \<^verbatim>\<open>OP_INSPECTASSETGROUPASSETID\<close> replaces \<open>K\<close> by the txid and the group
  index of the asset id, and \<^verbatim>\<open>OP_FINDASSETGROUPBYASSETID\<close> after it replaces these by the
  script number \<open>K\<close>. And on an asset id that no group has,
  \<^verbatim>\<open>OP_FINDASSETGROUPBYASSETID\<close> replaces its operands by the single script number \<open>-1\<close>,
  the byte \<open>0x81\<close>.
\<close>

theorem find_inverts_asset_id:
  fixes vm :: "('h, 'p) Engine"
  assumes "assetPacket vm = Some p"
    and "pop_int vm = (Inr k, vm0)"
    and "0 \<le> k" and "k < int (length (Groups p))"
    and "length (Txid (group_AssetID (Groups p ! nat k))) = 32"
    and "\<forall>j < length (Groups p). j \<noteq> nat k \<longrightarrow>
            group_AssetID (Groups p ! j) \<noteq> group_AssetID (Groups p ! nat k)"
  shows "opcodeInspectAssetGroupAssetID vm =
           (None, pushAssetID vm0 (group_AssetID (Groups p ! nat k))) \<and>
         opcodeFindAssetGroupByAssetID (snd (opcodeInspectAssetGroupAssetID vm)) =
           (None, push_int vm0 k) \<and>
         (\<forall>(vm1 :: ('h, 'p) Engine) vm2 a. assetPacket vm1 = Some p \<and> popAssetID vm1 = (Inr a, vm2) \<and>
             (\<forall>g \<in> set (Groups p). group_AssetID g \<noteq> a) \<longrightarrow>
             opcodeFindAssetGroupByAssetID vm1 = (None, push_int vm2 (- 1)) \<and>
             stk (dstack (push_int vm2 (- 1))) = stk (dstack vm2) @ [[0x81]])"
proof (intro conjI allI impI)
  let ?a = "group_AssetID (Groups p ! nat k)"
  have p0: "assetPacket vm0 = Some p"
    using pop_int_assetPacket [OF assms(2)] assms(1) by simp
  show first: "opcodeInspectAssetGroupAssetID vm = (None, pushAssetID vm0 ?a)"
    using assms(1-4) p0
    by (simp add: opcodeInspectAssetGroupAssetID_def checkAssetPacket_def checkGroupIndex_def
          packet_def)
  have pk: "assetPacket (pushAssetID vm0 ?a) = Some p"
    using p0 by (simp add: pushAssetID_def push_int_def push_bytes_def)
  have pop: "popAssetID (pushAssetID vm0 ?a) = (Inr ?a, vm0)"
    using assms(5) by (rule popAssetID_pushAssetID)
  have "findGroup (Groups p) ?a 0 = Some (0 + int (nat k))"
  proof (rule findGroup_first)
    show "nat k < length (Groups p)" using assms(3,4) by simp
    show "Txid (group_AssetID (Groups p ! nat k)) = Txid ?a \<and>
          Gidx (group_AssetID (Groups p ! nat k)) = Gidx ?a" by simp
    show "\<forall>j<nat k. \<not> (Txid (group_AssetID (Groups p ! j)) = Txid ?a \<and>
                        Gidx (group_AssetID (Groups p ! j)) = Gidx ?a)"
      using assms(3,4,6) by (auto simp: AssetID_eq_iff)
  qed
  then have fg: "findGroup (Groups p) ?a 0 = Some k" using assms(3) by simp
  show "opcodeFindAssetGroupByAssetID (snd (opcodeInspectAssetGroupAssetID vm)) =
          (None, push_int vm0 k)"
    using pk pop fg p0
    by (simp add: first opcodeFindAssetGroupByAssetID_def checkAssetPacket_def packet_def)
next
  fix vm1 vm2 :: "('h, 'p) Engine" and a
  assume h: "assetPacket vm1 = Some p \<and> popAssetID vm1 = (Inr a, vm2) \<and>
             (\<forall>g \<in> set (Groups p). group_AssetID g \<noteq> a)"
  then have "findGroup (Groups p) a 0 = None"
    by (intro findGroup_none) (auto simp: AssetID_eq_iff)
  moreover have "assetPacket vm2 = Some p"
    using h by (auto simp: popAssetID_def pop_int_def pop_bytes_def
                    split: prod.splits sum.splits if_splits)
  ultimately show "opcodeFindAssetGroupByAssetID vm1 = (None, push_int vm2 (- 1))"
    using h by (simp add: opcodeFindAssetGroupByAssetID_def checkAssetPacket_def packet_def)
  show "stk (dstack (push_int vm2 (- 1))) = stk (dstack vm2) @ [[0x81]]"
    by (simp add: push_int_def PushInt_def PushByteArray_def scriptNum_Bytes_def magnitude_bytes_one)
qed

theorem find_inverts_asset_id_witness:
  "assetPacket (with_stack (SetAssetPacket sample_engine (Some sample_packet)) [[0x01]])
     = Some sample_packet \<and>
   pop_int (with_stack (SetAssetPacket sample_engine (Some sample_packet)) [[0x01]])
     = (Inr 1, with_stack (SetAssetPacket sample_engine (Some sample_packet)) []) \<and>
   (1 :: int) < int (length (Groups sample_packet)) \<and>
   length (Txid (group_AssetID (Groups sample_packet ! nat 1))) = 32 \<and>
   group_AssetID (Groups sample_packet ! 0) \<noteq> group_AssetID (Groups sample_packet ! nat 1) \<and>
   opcodeFindAssetGroupByAssetID
     (snd (opcodeInspectAssetGroupAssetID
             (with_stack (SetAssetPacket sample_engine (Some sample_packet)) [[0x01]])))
     = (None, with_stack (SetAssetPacket sample_engine (Some sample_packet)) [[0x01]])"
proof -
  let ?vm = "with_stack (SetAssetPacket sample_engine (Some sample_packet)) [[0x01]]"
  let ?below = "with_stack (SetAssetPacket sample_engine (Some sample_packet)) []"
  have h1: "assetPacket ?vm = Some sample_packet"
    by (simp add: with_stack_def SetAssetPacket_def)
  have dec: "MakeScriptNum [0x01] True maxScriptNumLen = Inr 1"
    by (simp add: MakeScriptNum_def checkMinimalDataEncoding_def maxScriptNumLen_def)
  have h2: "pop_int ?vm = (Inr 1, ?below)"
    by (simp add: with_stack_def SetAssetPacket_def sample_engine_def pop_int_def PopInt_def
          PopByteArray_def dec)
  have h3: "(0 :: int) \<le> 1" by simp
  have h4: "(1 :: int) < int (length (Groups sample_packet))" by (simp add: sample_packet_def)
  have h5: "length (Txid (group_AssetID (Groups sample_packet ! nat 1))) = 32"
    by (simp add: sample_packet_def testControlTxid_def)
  have ne: "group_AssetID (Groups sample_packet ! 0) \<noteq> group_AssetID (Groups sample_packet ! nat 1)"
    by (simp add: sample_packet_def)
  have h6: "\<forall>j < length (Groups sample_packet). j \<noteq> nat 1 \<longrightarrow>
              group_AssetID (Groups sample_packet ! j) \<noteq> group_AssetID (Groups sample_packet ! nat 1)"
  proof (intro allI impI)
    fix j assume "j < length (Groups sample_packet)" "j \<noteq> nat 1"
    then have "j = 0" by (simp add: sample_packet_def)
    with ne show "group_AssetID (Groups sample_packet ! j) \<noteq> group_AssetID (Groups sample_packet ! nat 1)"
      by simp
  qed
  note T = find_inverts_asset_id [OF h1 h2 h3 h4 h5 h6]
  have restored: "push_int ?below 1 = ?vm"
    by (simp add: push_int_def PushInt_def PushByteArray_def with_stack_def scriptNum_Bytes_def
          magnitude_bytes_one Let_def)
  from T have "opcodeFindAssetGroupByAssetID (snd (opcodeInspectAssetGroupAssetID ?vm))
                 = (None, push_int ?below 1)"
    by (rule conjunct2 [THEN conjunct1])
  then have t: "opcodeFindAssetGroupByAssetID (snd (opcodeInspectAssetGroupAssetID ?vm)) = (None, ?vm)"
    by (simp only: restored)
  show ?thesis by (intro conjI) (rule h1 h2 h4 h5 ne t)+
qed

section \<open>The dispatch loop and the stack bound\<close>

lemma DropN_all: "stk (snd (DropN s (Depth s))) = []"
  by (cases "stk s") (simp_all add: DropN_def Depth_def)

lemma DropN_all_minimal: "verifyMinimalData (snd (DropN s (Depth s))) = verifyMinimalData s"
  by (simp add: DropN_def Depth_def)

lemma Depth_nonneg: "0 \<le> Depth s"
  by (simp add: Depth_def)


lemma verifyWitnessProgram_stacks:
  assumes "verifyWitnessProgram env vm witness = (None, vm')"
  shows "astack vm' = astack vm \<and> (dstack vm' = dstack vm \<or> Depth (dstack vm') \<le> MaxStackSize)"
  using assms
  by (auto simp: verifyWitnessProgram_def Let_def update_ctx_def SetStack_def checkInitialStack_def
      split: if_splits option.splits sum.splits)

lemma advanceScript_bound:
  assumes "advanceScript env vm = (None, vm')"
    and "Depth (astack vm) = 0" and "Depth (dstack vm) \<le> MaxStackSize"
  shows "Depth (dstack vm') + Depth (astack vm') \<le> MaxStackSize"
proof (cases "scriptIdx vm = 1 \<and> witnessProgram vm \<noteq> None")
  case True
  with assms(1) have "verifyWitnessProgram env (vm\<lparr>scriptIdx := scriptIdx vm + 1\<rparr>)
                        (Witness (TxIn (tx vm) ! nat (txIdx vm))) = (None, vm')"
    by (simp add: advanceScript_def Let_def split: if_splits)
  from verifyWitnessProgram_stacks [OF this] assms(2,3) show ?thesis by auto
next
  case False
  with assms(1) have "vm' = vm\<lparr>scriptIdx := scriptIdx vm + 1\<rparr>"
    by (auto simp: advanceScript_def split: if_splits)
  with assms(2,3) show ?thesis by simp
qed

lemma nextScript_bound:
  assumes "nextScript env vm = (d, None, vm')"
    and "Depth (dstack vm) + Depth (astack vm) \<le> MaxStackSize"
  shows "Depth (dstack vm') + Depth (astack vm') \<le> MaxStackSize"
proof -
  define vm2 where "vm2 = vm\<lparr>astack := snd (DropN (astack vm) (Depth (astack vm))), opcodeIdx := 0\<rparr>"
  have "stk (astack vm2) = []" by (simp add: vm2_def DropN_all)
  then have a0: "Depth (astack vm2) = 0" by (simp add: Depth_def)
  have d0: "Depth (dstack vm2) \<le> MaxStackSize"
    using assms(2) Depth_nonneg [of "astack vm"] by (simp add: vm2_def)
  from assms(1) obtain vm3 where i3: "advanceScript env vm2 = (None, vm3)"
    and same: "dstack vm' = dstack vm3" "astack vm' = astack vm3"
    by (auto simp: nextScript_def vm2_def Let_def split: if_splits prod.splits option.splits)
  from advanceScript_bound [OF i3 a0 d0] same show ?thesis by simp
qed

lemma Step_bound:
  assumes "Step env vm = (d, None, vm')"
  shows "Depth (dstack vm') + Depth (astack vm') \<le> MaxStackSize"
  using assms
  by (auto simp: Step_def Let_def dest: nextScript_bound
           split: option.splits prod.splits if_splits bool.splits)

lemma steps_bound:
  assumes "steps env vm0 vm"
    and "Depth (dstack vm0) + Depth (astack vm0) \<le> MaxStackSize"
  shows "Depth (dstack vm) + Depth (astack vm) \<le> MaxStackSize"
  using assms by (induction rule: steps.induct) (auto dest: Step_bound)

text \<open>
  Claim C7. Whenever \<open>Step\<close> returns no error, the data stack and the alternate stack
  together hold at most \<open>MaxStackSize = 1000\<close> elements. When the opcode handler has run
  without error and left more than that on the two stacks, \<open>Step\<close> fails with
  \<^verbatim>\<open>ErrStackOverflow\<close>. So every engine that a run reaches from an engine within the bound
  is within the bound.
\<close>

theorem combined_stack_bound:
  fixes vm vm' vm2 vm0 vmr :: "('h, 'p) Engine"
  shows "MaxStackSize = 1000 \<and>
         (Step env vm = (d, None, vm') \<longrightarrow>
            Depth (dstack vm') + Depth (astack vm') \<le> MaxStackSize) \<and>
         (checkValidPC vm = None \<and> tokenizer_Next (tokenizer vm) = (True, tz) \<and>
          tz_op tz = Some op \<and>
          executeOpcode env (vm\<lparr>tokenizer := tz\<rparr>) op (tz_data tz) = (None, vm2) \<and>
          Depth (dstack vm2) + Depth (astack vm2) > MaxStackSize \<longrightarrow>
            Step env vm =
              (False,
               Some (scriptErrorf ErrStackOverflow ''combined stack size %d > max allowed %d''
                       [AInt (Depth (dstack vm2) + Depth (astack vm2)), AInt MaxStackSize]),
               vm2)) \<and>
         (Depth (dstack vm0) + Depth (astack vm0) \<le> MaxStackSize \<and> steps env vm0 vmr \<longrightarrow>
            Depth (dstack vmr) + Depth (astack vmr) \<le> MaxStackSize)"
proof (intro conjI impI)
  show "MaxStackSize = 1000" by (simp add: MaxStackSize_def)
next
  assume "Step env vm = (d, None, vm')"
  then show "Depth (dstack vm') + Depth (astack vm') \<le> MaxStackSize" by (rule Step_bound)
next
  assume "checkValidPC vm = None \<and> tokenizer_Next (tokenizer vm) = (True, tz) \<and>
          tz_op tz = Some op \<and>
          executeOpcode env (vm\<lparr>tokenizer := tz\<rparr>) op (tz_data tz) = (None, vm2) \<and>
          Depth (dstack vm2) + Depth (astack vm2) > MaxStackSize"
  then show "Step env vm =
              (False,
               Some (scriptErrorf ErrStackOverflow ''combined stack size %d > max allowed %d''
                       [AInt (Depth (dstack vm2) + Depth (astack vm2)), AInt MaxStackSize]),
               vm2)"
    by (simp add: Step_def Let_def)
next
  assume "Depth (dstack vm0) + Depth (astack vm0) \<le> MaxStackSize \<and> steps env vm0 vmr"
  then show "Depth (dstack vmr) + Depth (astack vmr) \<le> MaxStackSize"
    using steps_bound by blast
qed

lemma sample_engine_Step:
  "Step sample_env sample_engine = (True, None, keyspend_engine)"
  by (simp add: Step_def checkValidPC_def tokenizer_Next_def tokenizer_Done_def tokenizer_Err_def
        Let_def nextScript_def advanceScript_def verifyWitnessProgram_def
        isWitnessVersionActive_def TaprootWitnessVersion_def witnessProgramLen_def
        payToTaprootDataSize_def isAnnexedWitness_def update_ctx_def
        newTaprootExecutionCtx_def sigOpsDelta_def blankCodeSepValue_def
        DropN_def Depth_def MaxStackSize_def keyspend_engine_def sample_engine_def
        sample_env_def executeOpcode_def isOpcodeAlwaysIllegal_def
        OP_VERIF_def OP_VERNOTIF_def MaxScriptElementSize_def isBranchExecuting_def
        OP_PUSHDATA4_def)

theorem combined_stack_bound_witness:
  "Step sample_env sample_engine = (True, None, keyspend_engine) \<and>
   Depth (dstack keyspend_engine) + Depth (astack keyspend_engine) \<le> 1000 \<and>
   steps sample_env sample_engine keyspend_engine \<and>
   Depth (dstack (with_stack sample_engine (replicate 1001 []))) > 1000 \<and>
   Step sample_env (with_stack sample_engine (replicate 1001 [])) =
     (False,
      Some (scriptErrorf ErrStackOverflow ''combined stack size %d > max allowed %d''
              [AInt 1001, AInt 1000]),
      (with_stack sample_engine (replicate 1001 []))
        \<lparr>tokenizer := \<lparr>tz_pending = [], tz_fail = None,
             tz_op = Some \<lparr>op_value = 0x51, op_name = [], op_length = 1\<rparr>,
             tz_data = [], tz_err = None\<rparr>\<rparr>)"
proof -
  let ?tz = "\<lparr>tz_pending = [], tz_fail = None,
          tz_op = Some \<lparr>op_value = 0x51, op_name = [], op_length = 1\<rparr>,
          tz_data = [], tz_err = None\<rparr>"
  let ?op = "\<lparr>op_value = 0x51, op_name = [], op_length = 1\<rparr>"
  let ?big = "with_stack sample_engine (replicate 1001 [])"
  note T = combined_stack_bound [of sample_env sample_engine True keyspend_engine ?tz ?op
             "?big\<lparr>tokenizer := ?tz\<rparr>" sample_engine keyspend_engine]
  note U = combined_stack_bound [of sample_env ?big True keyspend_engine ?tz ?op
             "?big\<lparr>tokenizer := ?tz\<rparr>" sample_engine keyspend_engine]
  have m: "MaxStackSize = 1000" using T by (rule conjunct1)
  note st = sample_engine_Step
  from T st have b: "Depth (dstack keyspend_engine) + Depth (astack keyspend_engine) \<le> 1000"
    by (simp add: m)
  have reach: "steps sample_env sample_engine keyspend_engine"
    by (rule steps_next [OF steps_start st])
  have deep: "Depth (dstack ?big) > 1000" by (simp add: with_stack_def Depth_def)
  have pre: "checkValidPC ?big = None \<and> tokenizer_Next (tokenizer ?big) = (True, ?tz) \<and>
          tz_op ?tz = Some ?op \<and>
          executeOpcode sample_env (?big\<lparr>tokenizer := ?tz\<rparr>) ?op (tz_data ?tz)
            = (None, ?big\<lparr>tokenizer := ?tz\<rparr>) \<and>
          Depth (dstack (?big\<lparr>tokenizer := ?tz\<rparr>)) + Depth (astack (?big\<lparr>tokenizer := ?tz\<rparr>))
            > MaxStackSize"
    by (simp add: with_stack_def sample_engine_def checkValidPC_def tokenizer_Next_def
          tokenizer_Done_def Depth_def MaxStackSize_def executeOpcode_def sample_env_def
          isOpcodeAlwaysIllegal_def OP_VERIF_def OP_VERNOTIF_def MaxScriptElementSize_def
          isBranchExecuting_def OP_PUSHDATA4_def)
  have sz: "Depth (dstack (?big\<lparr>tokenizer := ?tz\<rparr>)) + Depth (astack (?big\<lparr>tokenizer := ?tz\<rparr>)) = 1001"
    by (simp add: with_stack_def sample_engine_def Depth_def)
  from U pre have ov: "Step sample_env ?big =
     (False,
      Some (scriptErrorf ErrStackOverflow ''combined stack size %d > max allowed %d''
              [AInt 1001, AInt 1000]),
      ?big\<lparr>tokenizer := ?tz\<rparr>)"
    by (simp only: sz m)
  show ?thesis by (intro conjI) (rule st b reach deep ov)+
qed

section \<open>The key-spend path\<close>

lemma CheckErrorCondition_mustSucceed:
  "taprootCtx vm = Some c \<Longrightarrow> mustSucceed c \<Longrightarrow> CheckErrorCondition vm fs = (None, vm)"
  by (simp add: CheckErrorCondition_def)






section \<open>Signature verifiers\<close>

text \<open>
  Claim C5, as the code has it. An empty public key is the error
  \<^verbatim>\<open>ErrTaprootPubkeyIsEmpty\<close>. A key of 32 bytes is parsed as a BIP-340 key: the verifier
  is the one \<open>newTaprootSigVerifier\<close> builds, and a key that does not parse is that parse
  error. A key of any other length is the error \<^verbatim>\<open>ErrDiscourageUpgradeablePubKeyType\<close>,
  for every engine: no engine lets such a key pass.
\<close>

theorem pubkey_length_rules:
  fixes vm :: "('h, 'p) Engine"
  shows "(length pkBytes = 0 \<longrightarrow>
            newBaseTapscriptSigVerifier env pkBytes rawSig vm =
              Inl (scriptError ErrTaprootPubkeyIsEmpty '''')) \<and>
         (length pkBytes = 32 \<and> taprootCtx vm = Some ctx \<longrightarrow>
            newBaseTapscriptSigVerifier env pkBytes rawSig vm =
              (case newTaprootSigVerifier env pkBytes rawSig (tx vm) (txIdx vm) (prevOutFetcher vm)
                      (sigCache vm) (hashCache vm) (annex ctx) of
                 Inl err \<Rightarrow> Inl err
               | Inr v \<Rightarrow> Inr \<lparr>base_verifier = v, base_vm = vm\<rparr>) \<and>
            (\<forall>err. ParsePubKey env pkBytes = Inl err \<longrightarrow>
                   newBaseTapscriptSigVerifier env pkBytes rawSig vm = Inl err) \<and>
            (\<forall>b. newBaseTapscriptSigVerifier env pkBytes rawSig vm = Inr b \<longrightarrow>
                   ParsePubKey env pkBytes = Inr (sv_pubKey (base_verifier b)))) \<and>
         (length pkBytes \<noteq> 0 \<and> length pkBytes \<noteq> 32 \<longrightarrow>
            newBaseTapscriptSigVerifier env pkBytes rawSig vm =
              Inl (scriptErrorf ErrDiscourageUpgradeablePubKeyType ''pubkey of length %v was used''
                     [AInt (int (length pkBytes))]) \<and>
            verifyTapscriptSig env pkBytes rawSig vm =
              Inl (scriptErrorf ErrDiscourageUpgradeablePubKeyType ''pubkey of length %v was used''
                     [AInt (int (length pkBytes))]))"
  by (auto simp: newBaseTapscriptSigVerifier_def verifyTapscriptSig_def newTaprootSigVerifier_def
        parseTaprootSigAndPubKey_def split: sum.splits if_splits prod.splits)

theorem pubkey_length_rules_witness:
  "newBaseTapscriptSigVerifier sample_env [] (replicate 64 0x01) leaf_engine =
     Inl (scriptError ErrTaprootPubkeyIsEmpty '''') \<and>
   taprootCtx leaf_engine \<noteq> None \<and>
   ParsePubKey sample_env some_key = Inr (PublicKey some_key) \<and>
   map_sum id (\<lambda>b. sv_pubKey (base_verifier b))
     (newBaseTapscriptSigVerifier sample_env some_key (replicate 64 0x01) leaf_engine)
     = Inr (PublicKey some_key) \<and>
   verifyTapscriptSig sample_env (replicate 33 0x02) (replicate 64 0x01) leaf_engine =
     Inl (scriptErrorf ErrDiscourageUpgradeablePubKeyType ''pubkey of length %v was used''
            [AInt 33])"
proof -
  let ?ctx = "\<lparr>annex = None, codeSepPos = 0xffffffff, tapLeafHash = replicate 32 0x11,
                sigOpsBudget = 88, mustSucceed = False\<rparr>"
  note A = pubkey_length_rules [of "[]" sample_env "replicate 64 0x01" leaf_engine ?ctx]
  note B = pubkey_length_rules [of some_key sample_env "replicate 64 0x01" leaf_engine ?ctx]
  note C = pubkey_length_rules [of "replicate 33 0x02" sample_env "replicate 64 0x01" leaf_engine ?ctx]
  have a: "newBaseTapscriptSigVerifier sample_env [] (replicate 64 0x01) leaf_engine =
     Inl (scriptError ErrTaprootPubkeyIsEmpty '''')"
    using A by simp
  have ctx: "taprootCtx leaf_engine = Some ?ctx" by (simp add: leaf_engine_def)
  then have c0: "taprootCtx leaf_engine \<noteq> None" by simp
  have p: "ParsePubKey sample_env some_key = Inr (PublicKey some_key)" by (simp add: sample_env_def)
  have len: "length some_key = 32" by (simp add: some_key_def)
  from B len ctx have eq: "newBaseTapscriptSigVerifier sample_env some_key (replicate 64 0x01) leaf_engine =
      (case newTaprootSigVerifier sample_env some_key (replicate 64 0x01) (tx leaf_engine)
              (txIdx leaf_engine) (prevOutFetcher leaf_engine) (sigCache leaf_engine)
              (hashCache leaf_engine) (annex ?ctx) of
         Inl err \<Rightarrow> Inl err
       | Inr v \<Rightarrow> Inr \<lparr>base_verifier = v, base_vm = leaf_engine\<rparr>)"
    by blast
  have b: "map_sum id (\<lambda>b. sv_pubKey (base_verifier b))
     (newBaseTapscriptSigVerifier sample_env some_key (replicate 64 0x01) leaf_engine)
     = Inr (PublicKey some_key)"
    unfolding eq
    by (simp add: newTaprootSigVerifier_def parseTaprootSigAndPubKey_def sample_env_def
          SignatureSize_def)
  have c: "verifyTapscriptSig sample_env (replicate 33 0x02) (replicate 64 0x01) leaf_engine =
     Inl (scriptErrorf ErrDiscourageUpgradeablePubKeyType ''pubkey of length %v was used''
            [AInt 33])"
    using C by simp
  show ?thesis by (intro conjI) (rule a c0 p b c)+
qed

text \<open>
  The claim lets an unknown key type pass as a success unless the engine is strict. The
  engine has no such mode: a 33-byte key with a signature that the library accepts is
  rejected.
\<close>

theorem unknown_pubkey_type_counterexample:
  "SigVerify sample_env (Signature (replicate 64 0x01)) (replicate 32 0x00) (PublicKey (replicate 33 0x02)) \<and>
   verifyTapscriptSig sample_env (replicate 33 0x02) (replicate 64 0x01) leaf_engine \<noteq> Inr True \<and>
   errorCode (projl (verifyTapscriptSig sample_env (replicate 33 0x02) (replicate 64 0x01) leaf_engine))
     = Some ErrDiscourageUpgradeablePubKeyType"
  by (simp add: verifyTapscriptSig_def newBaseTapscriptSigVerifier_def sample_env_def
        scriptErrorf_def)






lemma verifyTapscriptSig_any_ctx:
  fixes vm :: "('h, 'p) Engine"
  shows "verifyTapscriptSig env pkBytes rawSig (vm\<lparr>taprootCtx := Some c\<rparr>) =
         verifyTapscriptSig env pkBytes rawSig (vm\<lparr>taprootCtx := Some c'\<rparr>)"
proof (cases "parseTaprootSigAndPubKey env pkBytes rawSig")
  case (Inl err)
  then show ?thesis
    by (simp add: verifyTapscriptSig_def newBaseTapscriptSigVerifier_def newTaprootSigVerifier_def)
next
  case (Inr r)
  obtain pubKey sg hashType where r: "r = (pubKey, sg, hashType)" by (cases r)
  show ?thesis
    by (simp add: verifyTapscriptSig_def newBaseTapscriptSigVerifier_def newTaprootSigVerifier_def
          Inr r baseTapscriptSigVerifier_Verify_def baseTapscript_sigHash_def verifySig_def Let_def
          split: option.splits sum.splits)
qed

text \<open>
  Claim C2 against the code. The digest that a tapscript signature check verifies is the
  same for any two execution contexts of the engine, whatever their leaf hash, their
  code-separator position and their annex: \<^verbatim>\<open>baseTapscriptSigVerifier.Verify\<close> calls
  \<^verbatim>\<open>CalcTaprootSignatureHash\<close> on the hash cache, the hash type, the transaction, the input
  index and the previous outputs only. So the verdict of the check is the same in both
  contexts too.
\<close>

theorem tapscript_digest_ignores_leaf_context:
  fixes vm :: "('h, 'p) Engine"
  shows "map_sum id (baseTapscript_sigHash env)
           (newBaseTapscriptSigVerifier env pkBytes rawSig (vm\<lparr>taprootCtx := Some c\<rparr>)) =
         map_sum id (baseTapscript_sigHash env)
           (newBaseTapscriptSigVerifier env pkBytes rawSig (vm\<lparr>taprootCtx := Some c'\<rparr>)) \<and>
         verifyTapscriptSig env pkBytes rawSig (vm\<lparr>taprootCtx := Some c\<rparr>) =
         verifyTapscriptSig env pkBytes rawSig (vm\<lparr>taprootCtx := Some c'\<rparr>)"
proof
  show "map_sum id (baseTapscript_sigHash env)
           (newBaseTapscriptSigVerifier env pkBytes rawSig (vm\<lparr>taprootCtx := Some c\<rparr>)) =
         map_sum id (baseTapscript_sigHash env)
           (newBaseTapscriptSigVerifier env pkBytes rawSig (vm\<lparr>taprootCtx := Some c'\<rparr>))"
    by (simp add: newBaseTapscriptSigVerifier_def newTaprootSigVerifier_def
          baseTapscript_sigHash_def split: sum.splits prod.splits)
  show "verifyTapscriptSig env pkBytes rawSig (vm\<lparr>taprootCtx := Some c\<rparr>) =
         verifyTapscriptSig env pkBytes rawSig (vm\<lparr>taprootCtx := Some c'\<rparr>)"
    by (rule verifyTapscriptSig_any_ctx)
qed

end
